theory Spec2Isabelle
  imports Main "HOL-Library.Log_Nat" "HOL-Library.AList"
begin

section \<open>Python strings and paths\<close>

text \<open>
  The program is one Python module, \<^verbatim>\<open>transcode_and_move_audio_files.py\<close>. Strings are
  \<^typ>\<open>string\<close>; the few library functions the module relies on are written out here
  from their CPython definitions: \<^verbatim>\<open>str.lower\<close> (on ASCII letters), \<^verbatim>\<open>str.rfind\<close>,
  \<^verbatim>\<open>str.partition\<close>, the substring test \<^verbatim>\<open>x in s\<close>, \<^verbatim>\<open>os.path.splitext\<close>
  (\<^verbatim>\<open>genericpath._splitext\<close>), and \<^verbatim>\<open>posixpath.join\<close> / \<^verbatim>\<open>posixpath.basename\<close>.
\<close>

definition lower_char :: "char \<Rightarrow> char" where
  "lower_char c =
     (let n = (of_char c :: nat) in if 65 \<le> n \<and> n \<le> 90 then char_of (n + 32) else c)"

definition lower :: "string \<Rightarrow> string" where
  "lower s = map lower_char s"

definition startswith :: "string \<Rightarrow> string \<Rightarrow> bool" where
  "startswith s x = (take (length x) s = x)"

text \<open>\<^verbatim>\<open>x in s\<close> for two strings: \<open>x\<close> occurs in \<open>s\<close> as a contiguous substring.\<close>

fun str_in :: "string \<Rightarrow> string \<Rightarrow> bool" where
  "str_in x [] = (x = [])"
| "str_in x (c # cs) = (startswith (c # cs) x \<or> str_in x cs)"

text \<open>\<^verbatim>\<open>s.rfind(c)\<close> for the one-character separators in \<open>cs\<close>: the highest index, or -1.\<close>

definition rfind :: "string \<Rightarrow> char list \<Rightarrow> int" where
  "rfind s cs =
     (case filter (\<lambda>i. s ! i \<in> set cs) (rev [0..<length s]) of
        [] \<Rightarrow> - 1
      | i # _ \<Rightarrow> int i)"

text \<open>\<^verbatim>\<open>s.partition(sep)[2]\<close>: what follows the first occurrence of \<open>sep\<close>, or the empty
  string when \<open>sep\<close> does not occur.\<close>

fun partition_after :: "string \<Rightarrow> string \<Rightarrow> string" where
  "partition_after sep [] = []"
| "partition_after sep (c # cs) =
     (if startswith (c # cs) sep then drop (length sep) (c # cs) else partition_after sep cs)"

text \<open>\<^verbatim>\<open>platform.system()\<close> is a string. \<^verbatim>\<open>os.path\<close> is \<^verbatim>\<open>ntpath\<close> on Windows, where both
  slashes separate path components, and \<^verbatim>\<open>posixpath\<close> elsewhere.\<close>

definition path_seps :: "string \<Rightarrow> char list" where
  "path_seps platform_system =
     (if platform_system = ''Windows'' then [CHR 0x5C, CHR ''/''] else [CHR ''/''])"

definition splitext :: "string \<Rightarrow> string \<Rightarrow> string \<times> string" where
  "splitext platform_system p =
     (let sepIndex = rfind p (path_seps platform_system);
          dotIndex = rfind p ''.''
      in if dotIndex > sepIndex \<and>
            list_ex (\<lambda>i. p ! i \<noteq> CHR ''.'') [nat (sepIndex + 1)..<nat dotIndex]
         then (take (nat dotIndex) p, drop (nat dotIndex) p)
         else (p, []))"

definition posix_join2 :: "string \<Rightarrow> string \<Rightarrow> string" where
  "posix_join2 a b =
     (if startswith b ''/'' then b
      else if a = [] \<or> last a = CHR ''/'' then a @ b
      else a @ ''/'' @ b)"

definition os_path_join :: "string \<Rightarrow> string list \<Rightarrow> string" where
  "os_path_join a ps = foldl posix_join2 a ps"

definition basename :: "string \<Rightarrow> string" where
  "basename p = drop (nat (rfind p ''/'' + 1)) p"

definition dirname :: "string \<Rightarrow> string" where
  "dirname p =
     (let i = nat (rfind p ''/'' + 1); h = take i p
      in if h \<noteq> [] \<and> \<not> list_all (\<lambda>c. c = CHR ''/'') h
         then rev (dropWhile (\<lambda>c. c = CHR ''/'') (rev h)) else h)"

section \<open>The module's pure helpers\<close>

datatype py_error =
  AttributeError | KeyError | OSError | TypeError | UnboundLocalError | UnicodeDecodeError

text \<open>Line 156: \<^verbatim>\<open>split_root_extension\<close>. The extension is what follows the last
  \<^verbatim>\<open>os.extsep\<close> of \<^verbatim>\<open>splitext\<close>'s second component, in lower case.\<close>

definition split_root_extension :: "string \<Rightarrow> string \<Rightarrow> string \<times> string" where
  "split_root_extension platform_system source_path =
     (let (root, extension) = splitext platform_system source_path
      in (root, lower (drop (nat (rfind extension ''.'' + 1)) extension)))"

text \<open>Line 149: \<^verbatim>\<open>main_and_relevant_files_for_audio_get\<close>.\<close>

definition main_and_relevant_files_for_audio_get :: "string \<Rightarrow> string list" where
  "main_and_relevant_files_for_audio_get extension_target =
     [extension_target, ''mpc'', ''jpg'', ''jpeg'', ''png'', ''pls'', ''rtf'', ''txt'', ''accurip'']"

text \<open>Line 169: \<^verbatim>\<open>is_supported_platform\<close>.\<close>

definition is_supported_platform :: "string \<Rightarrow> bool" where
  "is_supported_platform platform_system =
     (platform_system = ''Windows'' \<or> platform_system = ''Linux'')"

subsection \<open>The registry\<close>

text \<open>
  Line 53: \<^verbatim>\<open>dict_transcode_tool_platform_get\<close>. The three dictionaries are association
  lists in the order the source writes them. In encode mode a format's valid sources are a
  tuple of extensions; in decode mode the source binds a bare string
  (\<^verbatim>\<open>valid_decode_source_for_opus = opus\<close>), so the later test \<^verbatim>\<open>ext in ...\<close> is a
  substring test there. Any operation other than \<^verbatim>\<open>"encode"\<close> selects the decode tables,
  and any platform other than \<^verbatim>\<open>"Windows"\<close> selects the Linux tools.
\<close>

datatype pyseq = PyTuple "string list" | PyStr string

fun py_in :: "string \<Rightarrow> pyseq \<Rightarrow> bool" where
  "py_in x (PyTuple xs) = (x \<in> set xs)"
| "py_in x (PyStr s) = str_in x s"

type_synonym tool_dict = "(string \<times> string \<times> string list) list"
type_synonym source_dict = "(string \<times> pyseq) list"
type_synonym target_dict = "(string \<times> string) list"

definition options_encode_opus :: "string list" where
  "options_encode_opus =
     [''--music'', ''--bitrate'', ''160'', ''--vbr'', ''--framesize'', ''20'', ''--comp'', ''10'']"

definition options_decode_opus :: "string list" where
  "options_decode_opus = []"

definition options_encode_flac :: "string list" where
  "options_encode_flac =
     [''--keep-foreign-metadata'', ''--replay-gain'', ''--mid-side'', ''--best'', ''--verify'',
      ''--output-name'']"

definition options_decode_flac :: "string list" where
  "options_decode_flac = [''--decode'', ''--output-name'']"

definition dict_transcode_tool_platform_get ::
  "string \<Rightarrow> string \<Rightarrow> tool_dict \<times> source_dict \<times> target_dict" where
  "dict_transcode_tool_platform_get platform_system operation_transcode =
     (let dict_valid_source =
            (if operation_transcode = ''encode''
             then [(''opus'', PyTuple [''wav'', ''aiff'', ''flac'', ''oga'', ''pcm'']),
                   (''flac'', PyTuple [''wav'', ''aiff'', ''rf64'', ''w64''])]
             else [(''opus'', PyStr ''opus''), (''flac'', PyStr ''flac'')]);
          dict_valid_target =
            (if operation_transcode = ''encode''
             then [(''opus'', ''opus''), (''flac'', ''flac'')]
             else [(''opus'', ''wav''), (''flac'', ''wav'')]);
          dict_transcode_tool =
            (if platform_system = ''Windows''
             then (if operation_transcode = ''encode''
                   then [(''opus'', ''opusenc.exe'', options_encode_opus),
                         (''flac'', ''flac.exe'', options_encode_flac)]
                   else [(''opus'', ''opusdec.exe'', options_decode_opus),
                         (''flac'', ''flac.exe'', options_decode_flac)])
             else (if operation_transcode = ''encode''
                   then [(''opus'', ''/usr/bin/opusenc'', options_encode_opus),
                         (''flac'', ''/usr/bin/flac'', options_encode_flac)]
                   else [(''opus'', ''/usr/bin/opusdec'', options_decode_opus),
                         (''flac'', ''/usr/bin/flac'', options_decode_flac)]))
      in (dict_transcode_tool, dict_valid_source, dict_valid_target))"

text \<open>The keys of the registry, and the extensions line 253 tests: the tuple of line 150
  without its first entry.\<close>

definition format_keys :: "string list" where
  "format_keys = [''opus'', ''flac'']"

definition companion_extensions :: "string list" where
  "companion_extensions =
     [''mpc'', ''jpg'', ''jpeg'', ''png'', ''pls'', ''rtf'', ''txt'', ''accurip'']"

text \<open>Whether the registry lists \<open>ext\<close> among the valid sources of a format (line 384),
  and the path of the output (line 393), \<open>None\<close> for a format that is no key.\<close>

definition valid_source_extension :: "string \<Rightarrow> string \<Rightarrow> string \<Rightarrow> string \<Rightarrow> bool" where
  "valid_source_extension platform operation_transcode format_target ext =
     (case map_of (fst (snd (dict_transcode_tool_platform_get platform operation_transcode)))
             (lower format_target) of
        None \<Rightarrow> False
      | Some valid_source \<Rightarrow> py_in (lower ext) valid_source)"

definition target_path :: "string \<Rightarrow> string \<Rightarrow> string \<Rightarrow> string \<Rightarrow> string option" where
  "target_path platform operation_transcode format_target path_source_audio_file =
     (case map_of (snd (snd (dict_transcode_tool_platform_get platform operation_transcode)))
             (lower format_target) of
        None \<Rightarrow> None
      | Some target \<Rightarrow>
          Some (fst (split_root_extension platform path_source_audio_file) @ ''.'' @ target))"

section \<open>The file system\<close>

text \<open>
  The file system is a value: regular files with their bytes and the directories, both
  keyed by path. A path names an entry through its resolution (absolute or not, and its
  non-empty components other than \<^verbatim>\<open>.\<close>), so that \<^verbatim>\<open>/out/Album/\<close> and
  \<^verbatim>\<open>/out//Album\<close> name the directory \<^verbatim>\<open>/out/Album\<close>. Parent references
  (\<^verbatim>\<open>..\<close>), links and the working directory are outside the model. Operating-system
  failures that the model cannot derive (permissions, full or read-only devices) are the
  two oracles of \<open>env\<close>: a path for which the oracle holds makes the operation raise
  \<^verbatim>\<open>OSError\<close>.
\<close>

record world =
  files :: "(string \<times> string) list"
  dirs :: "string list"

fun split_on :: "char \<Rightarrow> string \<Rightarrow> string list" where
  "split_on c [] = [[]]"
| "split_on c (x # xs) =
     (if x = c then [] # split_on c xs
      else (case split_on c xs of [] \<Rightarrow> [[x]] | w # ws \<Rightarrow> (x # w) # ws))"

definition resolve :: "string \<Rightarrow> bool \<times> string list" where
  "resolve p =
     (startswith p ''/'', filter (\<lambda>s. s \<noteq> [] \<and> s \<noteq> ''.'') (split_on CHR ''/'' p))"

definition read_file :: "world \<Rightarrow> string \<Rightarrow> string option" where
  "read_file w p = map_of (map (\<lambda>(k, v). (resolve k, v)) (files w)) (resolve p)"

definition isfile :: "world \<Rightarrow> string \<Rightarrow> bool" where
  "isfile w p = (read_file w p \<noteq> None)"

definition isdir :: "world \<Rightarrow> string \<Rightarrow> bool" where
  "isdir w p = (resolve p \<in> set (map resolve (dirs w)))"

definition path_exists :: "world \<Rightarrow> string \<Rightarrow> bool" where
  "path_exists w p = (isfile w p \<or> isdir w p)"

definition remove_file :: "world \<Rightarrow> string \<Rightarrow> world" where
  "remove_file w p = w\<lparr>files := filter (\<lambda>(k, v). resolve k \<noteq> resolve p) (files w)\<rparr>"

definition write_file :: "world \<Rightarrow> string \<Rightarrow> string \<Rightarrow> world" where
  "write_file w p bytes =
     w\<lparr>files := filter (\<lambda>(k, v). resolve k \<noteq> resolve p) (files w) @ [(p, bytes)]\<rparr>"

record env =
  platform_system :: string
  shutil_fault :: "string \<Rightarrow> bool"
  mkdir_fault :: "string \<Rightarrow> bool"

text \<open>\<^verbatim>\<open>os.path.getsize\<close>: the length of a regular file; a missing path raises.\<close>

definition getsize :: "world \<Rightarrow> string \<Rightarrow> py_error + nat" where
  "getsize w p = (case read_file w p of None \<Rightarrow> Inl OSError | Some bytes \<Rightarrow> Inr (length bytes))"

text \<open>
  \<^verbatim>\<open>shutil.move(src, dst)\<close>: into the directory \<open>dst\<close> under the source's base name,
  refusing an existing entry of that name (\<^verbatim>\<open>shutil.Error\<close>, a subclass of
  \<^verbatim>\<open>OSError\<close>); onto the path \<open>dst\<close> itself when \<open>dst\<close> is no directory.
  \<^verbatim>\<open>shutil.copy2(src, dst)\<close>: the same destination, overwriting, the source kept.
\<close>

definition real_destination :: "world \<Rightarrow> string \<Rightarrow> string \<Rightarrow> string" where
  "real_destination w src dst = (if isdir w dst then posix_join2 dst (basename src) else dst)"

definition shutil_move :: "env \<Rightarrow> world \<Rightarrow> string \<Rightarrow> string \<Rightarrow> py_error + world" where
  "shutil_move e w src dst =
     (case read_file w src of
        None \<Rightarrow> Inl OSError
      | Some bytes \<Rightarrow>
          (let real_dst = real_destination w src dst
           in if shutil_fault e src \<or> (isdir w dst \<and> path_exists w real_dst) then Inl OSError
              else Inr (write_file (remove_file w src) real_dst bytes)))"

definition shutil_copy2 :: "env \<Rightarrow> world \<Rightarrow> string \<Rightarrow> string \<Rightarrow> py_error + world" where
  "shutil_copy2 e w src dst =
     (case read_file w src of
        None \<Rightarrow> Inl OSError
      | Some bytes \<Rightarrow>
          (let real_dst = real_destination w src dst
           in if shutil_fault e src \<or> resolve real_dst = resolve src then Inl OSError
              else Inr (write_file w real_dst bytes)))"

section \<open>Relocation\<close>

text \<open>
  Line 218: \<^verbatim>\<open>move_or_copy_file\<close>, with its three function attributes
  (lines 275 to 277) as a record. The call either returns, having moved, copied or
  ignored the file, or raises. Both \<^verbatim>\<open>except\<close> handlers (lines 235 and 260) evaluate
  \<^verbatim>\<open>error.stderr\<close> on the caught \<^verbatim>\<open>OSError\<close>, which has no such attribute: the
  handler itself raises \<^verbatim>\<open>AttributeError\<close>, and no caller catches it.
\<close>

record reloc_stats =
  total_count :: nat
  total_count_moved :: nat
  total_size :: nat

datatype reloc_outcome = Moved | Copied | Ignored | Raised py_error

definition reloc_stats_init :: reloc_stats where
  "reloc_stats_init = \<lparr>total_count = 0, total_count_moved = 0, total_size = 0\<rparr>"

definition move_or_copy_file ::
  "env \<Rightarrow> world \<times> reloc_stats \<Rightarrow> string \<Rightarrow> string \<Rightarrow> string
     \<Rightarrow> (world \<times> reloc_stats) \<times> reloc_outcome" where
  "move_or_copy_file e s file_source target_absolute_directory extension_target =
     (let (w, st) = s;
          (_, dict_valid_source, _) = dict_transcode_tool_platform_get (platform_system e) ''encode'';
          (_, extension) = split_root_extension (platform_system e) file_source
      in case getsize w file_source of
           Inl err \<Rightarrow> (s, Raised err)
         | Inr size_file \<Rightarrow>
             if extension \<in> set (map fst dict_valid_source) then
               (case shutil_move e w file_source target_absolute_directory of
                  Inl error_move \<Rightarrow> (s, Raised AttributeError)
                | Inr w' \<Rightarrow>
                    ((w', st\<lparr>total_count_moved := total_count_moved st + 1,
                              total_count := total_count st + 1,
                              total_size := total_size st + size_file\<rparr>), Moved))
             else if extension \<in> set (tl (main_and_relevant_files_for_audio_get extension_target)) then
               (case shutil_copy2 e w file_source target_absolute_directory of
                  Inl error_copy \<Rightarrow> (s, Raised AttributeError)
                | Inr w' \<Rightarrow>
                    ((w', st\<lparr>total_size := total_size st + size_file,
                              total_count := total_count st + 1\<rparr>), Copied))
             else (s, Ignored))"


text \<open>
  Line 280: \<^verbatim>\<open>create_directory\<close>. \<^verbatim>\<open>Path.mkdir(parents = True)\<close> creates the directory
  and its missing ancestors. The handler at line 288 evaluates \<^verbatim>\<open>error_mkdir.output\<close> on
  an \<^verbatim>\<open>OSError\<close> and so raises \<^verbatim>\<open>AttributeError\<close> before \<open>status\<close> is returned.
\<close>

fun join_with :: "string \<Rightarrow> string list \<Rightarrow> string" where
  "join_with sep [] = []"
| "join_with sep [x] = x"
| "join_with sep (x # y # ys) = x @ sep @ join_with sep (y # ys)"

definition render :: "bool \<times> string list \<Rightarrow> string" where
  "render r = (if fst r then ''/'' else []) @ join_with ''/'' (snd r)"

definition mkdir_parents :: "world \<Rightarrow> string \<Rightarrow> world" where
  "mkdir_parents w p =
     (let (a, cs) = resolve p
      in w\<lparr>dirs := dirs w @
            filter (\<lambda>d. \<not> isdir w d) (map (\<lambda>k. render (a, take k cs)) [1..<Suc (length cs)])\<rparr>)"

definition create_directory :: "env \<Rightarrow> world \<Rightarrow> string \<Rightarrow> py_error + world \<times> bool" where
  "create_directory e w target_absolute_directory =
     (let status = True
      in if \<not> path_exists w target_absolute_directory then
           (if mkdir_fault e target_absolute_directory then Inl AttributeError
            else Inr (mkdir_parents w target_absolute_directory, status))
         else Inr (w, status))"

text \<open>
  Line 307: \<^verbatim>\<open>build_target_and_operate\<close>, with \<^verbatim>\<open>os.sep\<close> and \<^verbatim>\<open>os.path.join\<close> of a
  POSIX system. The state is the file system, the relocation counters and
  \<^verbatim>\<open>total_time_ns_relocate\<close>; the time one relocation takes is the clock's answer
  \<open>relocate_ns\<close>. A file whose extension fails the test of line 315 is not handed on,
  which the result reports as \<open>Ignored\<close>.
\<close>

type_synonym reloc_state = "world \<times> reloc_stats \<times> nat"

text \<open>Lines 331 and 333: the directory a file of \<open>dir_source\<close> is relocated to.\<close>

definition planned_directory :: "string \<Rightarrow> string \<Rightarrow> string \<Rightarrow> string" where
  "planned_directory root_source dir_source dir_destination =
     (let path_dir_relative_target = partition_after (root_source @ ''/'') dir_source
      in posix_join2 dir_destination path_dir_relative_target)"

definition build_target_and_operate ::
  "env \<Rightarrow> (string \<Rightarrow> nat) \<Rightarrow> reloc_state \<Rightarrow> string \<Rightarrow> string \<Rightarrow> string \<Rightarrow> string \<Rightarrow> string
     \<Rightarrow> reloc_state \<times> reloc_outcome" where
  "build_target_and_operate e relocate_ns s root_source dir_source file_source dir_destination
       extension_target =
     (let (w, st, total_time_ns_relocate) = s;
          (root, extension_source) = split_root_extension (platform_system e) file_source
      in if extension_source \<in> set (main_and_relevant_files_for_audio_get extension_target) then
           (let path_file_source = posix_join2 dir_source file_source;
                moved =
                  (if root_source \<noteq> [] \<and> dir_source \<noteq> [] then
                     (let target_absolute_directory =
                            planned_directory root_source dir_source dir_destination
                      in case create_directory e w target_absolute_directory of
                           Inl err \<Rightarrow> ((w, st), Raised err)
                         | Inr (w', status) \<Rightarrow>
                             move_or_copy_file e (w', st) path_file_source
                               target_absolute_directory extension_target)
                   else move_or_copy_file e (w, st) (posix_join2 dir_source file_source)
                          dir_destination extension_target)
            in case moved of
                 ((w', st'), Raised err) \<Rightarrow> ((w', st', total_time_ns_relocate), Raised err)
               | ((w', st'), out) \<Rightarrow>
                   ((w', st', total_time_ns_relocate + relocate_ns path_file_source), out))
         else (s, Ignored))"

section \<open>Floating-point arithmetic\<close>

text \<open>
  A Python \<^verbatim>\<open>float\<close> is an IEEE 754 binary64 number. The values met here are
  non-negative quotients and products of integers, so a float is represented by the
  rational it denotes, and each operation rounds its exact result to the nearest number
  with a 53-bit significand, ties to the even significand. Exponent overflow and
  subnormal numbers are outside the model (they need counters beyond \<open>10\<^sup>3\<^sup>0\<^sup>0\<close>).
  \<open>binade x\<close> is the exponent \<open>e\<close> with \<open>2\<^sup>e \<le> x < 2\<^sup>e\<^sup>+\<^sup>1\<close>.
\<close>

definition pow2 :: "int \<Rightarrow> rat" where
  "pow2 e = (if 0 \<le> e then 2 ^ nat e else 1 / 2 ^ nat (- e))"

definition round_half_even :: "rat \<Rightarrow> int" where
  "round_half_even x =
     (let f = \<lfloor>x\<rfloor>; d = x - of_int f
      in if d < 1 / 2 then f else if 1 / 2 < d then f + 1 else if even f then f else f + 1)"

definition binade :: "rat \<Rightarrow> int" where
  "binade x =
     (let (p, q) = quotient_of x;
          e0 = bitlen p - bitlen q
      in if pow2 e0 \<le> x then e0 else e0 - 1)"

definition fl :: "rat \<Rightarrow> rat" where
  "fl x =
     (if x \<le> 0 then 0
      else (let ulp = pow2 (binade x - 52) in of_int (round_half_even (x / ulp)) * ulp))"

text \<open>\<^verbatim>\<open>a / b\<close> on two integers is the correctly rounded quotient.\<close>

definition true_divide :: "int \<Rightarrow> int \<Rightarrow> rat" where
  "true_divide a b = fl (of_int a / of_int b)"

section \<open>Transcoding\<close>

text \<open>
  Line 354: \<^verbatim>\<open>transcode_source_audio\<close>. Its function attributes (lines 493 to 504) are
  the record \<open>transcode_state\<close>; the three \<^verbatim>\<open>dict_..._prev\<close> attributes are written and
  never read, and are left out. The attributes cached per extension are \<^verbatim>\<open>None\<close> until the
  first call writes them, and are read only when \<open>extension_prev\<close> equals the
  extension of the file, a string: only \<open>extension_prev\<close> needs the \<^verbatim>\<open>None\<close>.

  The external tool is the parameter \<open>run_tool\<close>, the answer of
  \<^verbatim>\<open>subprocess.run(..., check = True, universal_newlines = True)\<close> to an argument
  vector in a file system. Either the tool runs to an exit status (\<open>Exited\<close>, with the
  nanoseconds the call took and the file system it leaves), and a status other than 0 is
  the \<^verbatim>\<open>CalledProcessError\<close> that line 431 catches; or the call raises something else
  (\<open>ToolRaised\<close>): \<^verbatim>\<open>OSError\<close>, \<^verbatim>\<open>PermissionError\<close> included, for a tool file that
  cannot be started, \<^verbatim>\<open>UnicodeDecodeError\<close> for output that does not decode. Line 431
  catches none of these, and they leave the function.
  Printing, logging and the desktop notification leave no trace in the state.
  \<open>dict_files_failed\<close> is the dictionary \<^verbatim>\<open>main\<close> passes in the pass that transcodes. The result names what the call did
  (\<open>t_outcome\<close>), the argument vectors it ran (\<open>t_invoked\<close>) and the progress line it
  printed (\<open>t_progress\<close>), next to the value it returns (\<open>t_return\<close>, \<open>None\<close> for a bare
  \<^verbatim>\<open>return\<close>).
\<close>

record transcode_state =
  total_time_ns_transcode :: nat
  total_count_transcode :: nat
  total_count_source :: nat
  extension_prev :: "string option"
  is_valid_source_prev :: bool
  does_transcode_tool_exist_prev :: bool
  options_prev :: "string list"
  transcode_tool_prev :: string
  target_prev :: string

definition transcode_state_init :: transcode_state where
  "transcode_state_init =
     \<lparr>total_time_ns_transcode = 0, total_count_transcode = 0, total_count_source = 0,
      extension_prev = None, is_valid_source_prev = False,
      does_transcode_tool_exist_prev = False, options_prev = [], transcode_tool_prev = [],
      target_prev = []\<rparr>"

datatype tool_reply = Exited int nat world | ToolRaised py_error

type_synonym tool = "string list \<Rightarrow> world \<Rightarrow> tool_reply"

datatype transcode_outcome =
  Counted | CountSkippedExisting | SkippedIneligible | SkippedExisting | NoSuchTool
  | Transcoded | Failed

datatype progress = Percent int | AllTranscoded

record transcode_result =
  t_world :: world
  t_state :: transcode_state
  t_failed :: "(string \<times> string) list"
  t_return :: "string option"
  t_outcome :: transcode_outcome
  t_invoked :: "string list list"
  t_progress :: "progress option"

definition remediation_hint :: string where
  "remediation_hint =
     [CHR 0x0A] @ ''If the source is in wav format, transcode to flac. Else, if the source is in flac, transcode to wav, and then back to flac. This is most likely an error due to an incompatible PCM format, or due to the OS character set encoding.''"

text \<open>Lines 478 to 488: the progress line, from the two counters.\<close>

definition percent_complete :: "nat \<Rightarrow> nat \<Rightarrow> int" where
  "percent_complete count_transcode count_source =
     \<lfloor>fl (true_divide (int count_transcode) (int count_source) * 100)\<rfloor>"

definition progress_report :: "transcode_state \<Rightarrow> progress option" where
  "progress_report ts =
     (if total_count_source ts \<noteq> 0 \<and> total_count_transcode ts \<noteq> 0 then
        (if total_count_transcode ts < total_count_source ts
         then Some (Percent (percent_complete (total_count_transcode ts) (total_count_source ts)))
         else Some AllTranscoded)
      else None)"

text \<open>Lines 368 to 390: the values for this extension, cached or looked up afresh.\<close>

definition resolve_transcoder ::
  "string \<Rightarrow> world \<Rightarrow> transcode_state \<Rightarrow> string \<Rightarrow> string \<Rightarrow> string
     \<Rightarrow> py_error + transcode_state" where
  "resolve_transcoder platform w ts extension_original extension operation_transcode =
     (if Some extension_original = extension_prev ts then Inr ts
      else
        (let (dict_transcode_tool, dict_valid_source, dict_valid_target) =
               dict_transcode_tool_platform_get platform operation_transcode
         in case (map_of dict_valid_target extension, map_of dict_valid_source extension,
                  map_of dict_transcode_tool extension) of
              (Some target, Some valid_source, Some (transcode_tool, options)) \<Rightarrow>
                Inr (ts\<lparr>extension_prev := Some extension_original,
                         target_prev := target,
                         is_valid_source_prev := py_in (lower extension_original) valid_source,
                         does_transcode_tool_exist_prev := isfile w transcode_tool,
                         transcode_tool_prev := transcode_tool,
                         options_prev := options\<rparr>)
            | _ \<Rightarrow> Inl KeyError))"

text \<open>
  The cache is keyed by the extension alone. Within a run the format and the operation
  are fixed, and the cached target, validity, tool and options are then the ones a fresh
  lookup gives: \<open>cache_ok\<close> says so, it holds of the initial attributes and every call
  keeps it.
\<close>

definition cache_ok :: "string \<Rightarrow> string \<Rightarrow> string \<Rightarrow> transcode_state \<Rightarrow> bool" where
  "cache_ok platform format_target operation_transcode ts =
     (case extension_prev ts of
        None \<Rightarrow> True
      | Some ext \<Rightarrow>
          (let (dict_transcode_tool, dict_valid_source, dict_valid_target) =
                 dict_transcode_tool_platform_get platform operation_transcode
           in map_of dict_valid_target (lower format_target) = Some (target_prev ts)
              \<and> map_of dict_transcode_tool (lower format_target)
                    = Some (transcode_tool_prev ts, options_prev ts)
              \<and> (case map_of dict_valid_source (lower format_target) of
                     None \<Rightarrow> False
                   | Some valid_source \<Rightarrow> is_valid_source_prev ts = py_in (lower ext) valid_source)))"

definition transcode_source_audio ::
  "string \<Rightarrow> tool \<Rightarrow> world \<times> transcode_state \<times> (string \<times> string) list
     \<Rightarrow> string \<Rightarrow> string \<Rightarrow> string \<Rightarrow> bool \<Rightarrow> py_error + transcode_result" where
  "transcode_source_audio platform run_tool s path_source_audio_file format_target
       operation_transcode percentage_gather =
     (let (w, ts0, dict_files_failed) = s;
          (root, extension_original) = split_root_extension platform path_source_audio_file;
          extension = lower format_target
      in case resolve_transcoder platform w ts0 extension_original extension operation_transcode of
           Inl err \<Rightarrow> Inl err
         | Inr ts \<Rightarrow>
             (let target = target_prev ts;
                  is_valid_source = is_valid_source_prev ts;
                  does_transcode_tool_exist = does_transcode_tool_exist_prev ts;
                  transcode_tool = transcode_tool_prev ts;
                  options = options_prev ts;
                  path_target_audio_file = root @ ''.'' @ target;
                  res = \<lparr>t_world = w, t_state = ts, t_failed = dict_files_failed,
                         t_return = Some path_target_audio_file, t_outcome = SkippedIneligible,
                         t_invoked = [], t_progress = None\<rparr>
              in if is_valid_source then
                   (if \<not> path_exists w path_target_audio_file then
                      (if percentage_gather then
                         Inr (res\<lparr>t_state := ts\<lparr>total_count_source := total_count_source ts + 1\<rparr>,
                                  t_return := None, t_outcome := Counted\<rparr>)
                       else if does_transcode_tool_exist then
                         (let argv = [transcode_tool, path_source_audio_file] @ options
                                       @ [path_target_audio_file]
                          in case run_tool argv w of
                               ToolRaised err \<Rightarrow> Inl err
                             | Exited status ns w' \<Rightarrow>
                                 if status \<noteq> 0 then
                                   Inr (res\<lparr>t_world := w',
                                            t_failed := AList.update path_source_audio_file
                                                          remediation_hint dict_files_failed,
                                            t_outcome := Failed, t_invoked := [argv],
                                            t_progress := progress_report ts\<rparr>)
                                 else
                                   (let ts' = ts\<lparr>total_count_transcode :=
                                                    total_count_transcode ts + 1,
                                                  total_time_ns_transcode :=
                                                    total_time_ns_transcode ts + ns\<rparr>
                                    in Inr (res\<lparr>t_world := w', t_state := ts',
                                                t_outcome := Transcoded, t_invoked := [argv],
                                                t_progress := progress_report ts'\<rparr>)))
                       else Inr (res\<lparr>t_outcome := NoSuchTool, t_progress := progress_report ts\<rparr>))
                    else if percentage_gather then
                      Inr (res\<lparr>t_return := None, t_outcome := CountSkippedExisting\<rparr>)
                    else Inr (res\<lparr>t_outcome := SkippedExisting, t_progress := progress_report ts\<rparr>))
                 else Inr res))"

section \<open>The batch\<close>

text \<open>
  \<^verbatim>\<open>os.walk(top)\<close> reports \<open>top\<close> and every directory below it, each with the names of
  its regular files; the path of a directory below \<open>top\<close> is \<open>top\<close> joined with its
  relative components. The model lists the directories in the order of the file system
  value, and lists them when the loop starts: a loop of the module adds and removes
  files only in directories already listed, or outside the tree.
\<close>

definition files_in :: "world \<Rightarrow> string \<Rightarrow> string list" where
  "files_in w d =
     map (\<lambda>(k, v). last (snd (resolve k)))
       (filter (\<lambda>(k, v). fst (resolve k) = fst (resolve d) \<and> snd (resolve k) \<noteq> []
                           \<and> butlast (snd (resolve k)) = snd (resolve d)) (files w))"

definition os_walk :: "world \<Rightarrow> string \<Rightarrow> (string \<times> string list) list" where
  "os_walk w top_dir =
     (if \<not> isdir w top_dir then []
      else
        (let (a, tc) = resolve top_dir;
             below = filter (\<lambda>d. fst (resolve d) = a \<and> length tc < length (snd (resolve d))
                                  \<and> take (length tc) (snd (resolve d)) = tc) (dirs w)
         in (top_dir, files_in w top_dir)
            # map (\<lambda>d. (os_path_join top_dir (drop (length tc) (snd (resolve d))), files_in w d)) below))"

definition walk_files :: "(string \<times> string list) list \<Rightarrow> (string \<times> string) list" where
  "walk_files walk = concat (map (\<lambda>(source_dir, file_names). map (Pair source_dir) file_names) walk)"

text \<open>Lines 632 to 639: the transcode loop of \<^verbatim>\<open>process_dir\<close>. An exception ends it.
  The results of the calls are kept as a trace.\<close>

type_synonym transcode_input = "world \<times> transcode_state \<times> (string \<times> string) list"

fun transcode_loop ::
  "string \<Rightarrow> tool \<Rightarrow> transcode_input \<Rightarrow> (string \<times> string) list \<Rightarrow> string \<Rightarrow> string \<Rightarrow> bool
     \<Rightarrow> py_error + transcode_input \<times> transcode_result list" where
  "transcode_loop platform run_tool s [] target transcode percentage_gather = Inr (s, [])"
| "transcode_loop platform run_tool s ((source_dir, source_file) # rest) target transcode
       percentage_gather =
     (case transcode_source_audio platform run_tool s (posix_join2 source_dir source_file)
             target transcode percentage_gather of
        Inl err \<Rightarrow> Inl err
      | Inr r \<Rightarrow>
          (case transcode_loop platform run_tool (t_world r, t_state r, t_failed r) rest
                  target transcode percentage_gather of
             Inl err \<Rightarrow> Inl err
           | Inr (s', rs) \<Rightarrow> Inr (s', r # rs)))"

text \<open>Lines 653 to 659: the relocation loop of \<^verbatim>\<open>process_dir\<close>. The outcomes of the
  calls are kept as a trace; a call that raises ends the loop and is the last entry.\<close>

fun relocation_loop ::
  "env \<Rightarrow> (string \<Rightarrow> nat) \<Rightarrow> reloc_state \<Rightarrow> string \<Rightarrow> (string \<times> string) list \<Rightarrow> string \<Rightarrow> string
     \<Rightarrow> reloc_state \<times> reloc_outcome list" where
  "relocation_loop e relocate_ns s root_source [] dir_destination target = (s, [])"
| "relocation_loop e relocate_ns s root_source ((source_dir, source_file) # rest)
       dir_destination target =
     (case build_target_and_operate e relocate_ns s root_source source_dir source_file
             dir_destination target of
        (s', Raised err) \<Rightarrow> (s', [Raised err])
      | (s', out) \<Rightarrow>
          (let (s'', outs) = relocation_loop e relocate_ns s' root_source rest dir_destination target
           in (s'', out # outs)))"

text \<open>
  Line 537: \<^verbatim>\<open>delete_empty_directories_in_target\<close>. \<^verbatim>\<open>os.removedirs\<close> removes an empty
  directory and then its ancestors for as long as they are empty; the \<^verbatim>\<open>OSError\<close> of a
  directory that is not empty, or no longer there, is suppressed.
\<close>

definition is_empty_dir :: "world \<Rightarrow> bool \<times> string list \<Rightarrow> bool" where
  "is_empty_dir w r =
     (\<not> list_ex (\<lambda>p. fst (resolve p) = fst r \<and> length (snd r) < length (snd (resolve p))
                       \<and> take (length (snd r)) (snd (resolve p)) = snd r)
          (map fst (files w) @ dirs w))"

primrec removedirs :: "world \<Rightarrow> bool \<Rightarrow> string list \<Rightarrow> nat \<Rightarrow> world" where
  "removedirs w a cs 0 = w"
| "removedirs w a cs (Suc k) =
     (let r = (a, take (Suc k) cs)
      in if r \<in> set (map resolve (dirs w)) \<and> is_empty_dir w r
         then removedirs (w\<lparr>dirs := filter (\<lambda>d. resolve d \<noteq> r) (dirs w)\<rparr>) a cs k
         else w)"

definition delete_empty_directories_in_target :: "world \<Rightarrow> string option \<Rightarrow> py_error + world" where
  "delete_empty_directories_in_target w dir_destination =
     (case dir_destination of
        None \<Rightarrow> Inl TypeError
      | Some d \<Rightarrow>
          Inr (foldl (\<lambda>w' dir_name. removedirs w' (fst (resolve dir_name)) (snd (resolve dir_name))
                                      (length (snd (resolve dir_name))))
                 w (map fst (os_walk w d))))"

text \<open>
  The state of a run: the file system, the attributes of \<^verbatim>\<open>transcode_source_audio\<close>,
  the dictionary of failures, the attributes of \<^verbatim>\<open>move_or_copy_file\<close> and
  \<^verbatim>\<open>build_target_and_operate.total_time_ns_relocate\<close>.
\<close>

record run_state =
  rs_world :: world
  rs_transcode :: transcode_state
  rs_failed :: "(string \<times> string) list"
  rs_stats :: reloc_stats
  rs_time_ns_relocate :: nat

definition run_state_init :: "world \<Rightarrow> run_state" where
  "run_state_init w =
     \<lparr>rs_world = w, rs_transcode = transcode_state_init, rs_failed = [],
      rs_stats = reloc_stats_init, rs_time_ns_relocate = 0\<rparr>"

text \<open>A Python value is true when it is neither \<^verbatim>\<open>None\<close> nor empty.\<close>

definition truthy :: "string option \<Rightarrow> bool" where
  "truthy v = (case v of None \<Rightarrow> False | Some s \<Rightarrow> s \<noteq> [])"

text \<open>Lines 613 to 616: the head directory under the destination.\<close>

definition destination_head :: "string \<Rightarrow> string \<Rightarrow> string" where
  "destination_head root_source dir_destination =
     (if root_source \<noteq> dir_destination
      then os_path_join ''/'' [dir_destination @ ''/'', basename root_source]
      else dir_destination)"

text \<open>
  Line 608: \<^verbatim>\<open>process_dir\<close>. The result is the value returned: \<open>None\<close> for the bare
  \<^verbatim>\<open>return\<close> of the counting pass. \<^verbatim>\<open>create_directory\<close> returns \<^verbatim>\<open>True\<close> or raises,
  so the branch of line 664 that sets \<^verbatim>\<open>exit_code = 1\<close> is kept but never taken.
\<close>

definition ensure_directory :: "env \<Rightarrow> world \<Rightarrow> string \<Rightarrow> py_error + world \<times> bool" where
  "ensure_directory e w dir_destination =
     (if path_exists w dir_destination then Inr (w, True)
      else create_directory e w dir_destination)"

definition process_dir ::
  "env \<Rightarrow> tool \<Rightarrow> (string \<Rightarrow> nat) \<Rightarrow> run_state \<Rightarrow> string \<Rightarrow> string \<Rightarrow> string option \<Rightarrow> string
     \<Rightarrow> string option \<Rightarrow> bool \<Rightarrow> py_error + run_state \<times> int option" where
  "process_dir e run_tool relocate_ns rs root_source dir_destination0 dir_destination_original
       target transcode percentage_gather =
     (let exit_code = 0;
          dir_destination = destination_head root_source dir_destination0
      in case ensure_directory e (rs_world rs) dir_destination of
           Inl err \<Rightarrow> Inl err
         | Inr (w1, False) \<Rightarrow> Inr (rs\<lparr>rs_world := w1\<rparr>, Some 1)
         | Inr (w1, True) \<Rightarrow>
             (case (if truthy transcode
                    then transcode_loop (platform_system e) run_tool
                           (w1, rs_transcode rs, rs_failed rs) (walk_files (os_walk w1 root_source))
                           target (the transcode) percentage_gather
                    else Inr ((w1, rs_transcode rs, rs_failed rs), [])) of
                Inl err \<Rightarrow> Inl err
              | Inr ((w2, ts, failed), trace) \<Rightarrow>
                  (let rs2 = rs\<lparr>rs_world := w2, rs_transcode := ts, rs_failed := failed\<rparr>
                   in if percentage_gather then Inr (rs2, None)
                      else if root_source \<noteq> dir_destination then
                        (case relocation_loop e relocate_ns
                                (w2, rs_stats rs, rs_time_ns_relocate rs) root_source
                                (walk_files (os_walk w2 root_source)) dir_destination target of
                           ((w3, st, t), outs) \<Rightarrow>
                             (case filter (\<lambda>out. case out of Raised err \<Rightarrow> True | _ \<Rightarrow> False) outs of
                                Raised err # _ \<Rightarrow> Inl err
                              | _ \<Rightarrow>
                                  (case delete_empty_directories_in_target w3
                                          dir_destination_original of
                                     Inl err \<Rightarrow> Inl err
                                   | Inr w4 \<Rightarrow>
                                       Inr (rs2\<lparr>rs_world := w4, rs_stats := st,
                                                rs_time_ns_relocate := t\<rparr>, Some exit_code))))
                      else Inr (rs2, Some exit_code))))"

text \<open>
  Line 673: \<^verbatim>\<open>process_file\<close>. \<open>transcoded_file\<close> is bound only under
  \<^verbatim>\<open>if transcode\<close>, and line 695 reads it whenever the file differs from the destination.
\<close>

definition process_file ::
  "env \<Rightarrow> tool \<Rightarrow> (string \<Rightarrow> nat) \<Rightarrow> run_state \<Rightarrow> string \<Rightarrow> string \<Rightarrow> string \<Rightarrow> string option
     \<Rightarrow> py_error + run_state \<times> int option" where
  "process_file e run_tool relocate_ns rs root_source0 dir_destination target transcode =
     (let exit_code = 0
      in case ensure_directory e (rs_world rs) dir_destination of
           Inl err \<Rightarrow> Inl err
         | Inr (w1, False) \<Rightarrow> Inr (rs\<lparr>rs_world := w1\<rparr>, Some 1)
         | Inr (w1, True) \<Rightarrow>
             (case (if truthy transcode
                    then (case transcode_source_audio (platform_system e) run_tool
                                 (w1, rs_transcode rs, rs_failed rs) root_source0 target
                                 (the transcode) False of
                            Inl err \<Rightarrow> Inl err
                          | Inr r \<Rightarrow> Inr ((t_world r, t_state r, t_failed r), t_return r))
                    else Inr ((w1, rs_transcode rs, rs_failed rs), None)) of
                Inl err \<Rightarrow> Inl err
              | Inr ((w2, ts, failed), transcoded_file) \<Rightarrow>
                  (let rs2 = rs\<lparr>rs_world := w2, rs_transcode := ts, rs_failed := failed\<rparr>;
                       root_source =
                         (case transcoded_file of
                            Some p \<Rightarrow> if path_exists w2 p then p else root_source0
                          | None \<Rightarrow> root_source0)
                   in if root_source \<noteq> dir_destination then
                        (case transcoded_file of
                           None \<Rightarrow> Inl UnboundLocalError
                         | Some p \<Rightarrow>
                             (case build_target_and_operate e relocate_ns
                                     (w2, rs_stats rs, rs_time_ns_relocate rs) [] [] root_source
                                     dir_destination target of
                                (s', Raised err) \<Rightarrow> Inl err
                              | ((w3, st, t), out) \<Rightarrow>
                                  Inr (rs2\<lparr>rs_world := w3, rs_stats := st,
                                           rs_time_ns_relocate := t\<rparr>, Some exit_code)))
                      else Inr (rs2, Some exit_code))))"

text \<open>Line 769: \<^verbatim>\<open>dir_default_set\<close>.\<close>

definition dir_default_set :: "world \<Rightarrow> string \<Rightarrow> string" where
  "dir_default_set w root_source = (if isdir w root_source then root_source else dirname root_source)"

text \<open>
  Line 798: \<^verbatim>\<open>main\<close>, from the values \<^verbatim>\<open>cmd_line_parse\<close> returns. Logging, the change of
  working directory and the printed summary have no part in the result. A result that is
  true in Python is an integer other than 0; \<^verbatim>\<open>None\<close> is not.
\<close>

record cmd_line =
  source :: string
  target :: "string option"
  encode_to :: "string option"
  decode_from :: "string option"
  move_format :: "string option"
  percentage :: bool

definition main ::
  "env \<Rightarrow> tool \<Rightarrow> (string \<Rightarrow> nat) \<Rightarrow> world \<Rightarrow> cmd_line \<Rightarrow> py_error + run_state \<times> int" where
  "main e run_tool relocate_ns w argv =
     (let rs = run_state_init w in
      if is_supported_platform (platform_system e) then
        (let root_source = source argv;
             percentage_show = percentage argv;
             target_opt = (if truthy (encode_to argv) then encode_to argv
                           else if truthy (decode_from argv) then decode_from argv
                           else move_format argv)
         in if truthy target_opt then
              (if truthy (move_format argv) \<and> percentage_show then Inr (rs, 1)
               else if path_exists w root_source then
                 (let dir_destination_original = target argv;
                      transcode = (if truthy (encode_to argv) then Some ''encode''
                                   else if truthy (decode_from argv) then Some ''decode''
                                   else None);
                      dir_destination = (if \<not> truthy (target argv) then dir_default_set w root_source
                                         else the (target argv))
                  in if isdir w root_source then
                       (case (if percentage_show
                              then (case process_dir e run_tool relocate_ns rs root_source
                                           dir_destination dir_destination_original
                                           (the target_opt) transcode True of
                                      Inl err \<Rightarrow> Inl err
                                    | Inr (rs1, _) \<Rightarrow> Inr rs1)
                              else Inr rs) of
                          Inl err \<Rightarrow> Inl err
                        | Inr rs1 \<Rightarrow>
                            (case process_dir e run_tool relocate_ns rs1 root_source
                                    dir_destination dir_destination_original
                                    (the target_opt) transcode False of
                               Inl err \<Rightarrow> Inl err
                             | Inr (rs2, r) \<Rightarrow>
                                 Inr (rs2, if r \<noteq> None \<and> r \<noteq> Some 0 then 1 else 0)))
                     else
                       (case process_file e run_tool relocate_ns rs root_source dir_destination
                               (the target_opt) transcode of
                          Inl err \<Rightarrow> Inl err
                        | Inr (rs2, r) \<Rightarrow>
                            Inr (rs2, if r \<noteq> None \<and> r \<noteq> Some 0 then 1 else 0)))
               else Inr (rs, 1))
            else Inr (rs, 1))
      else Inr (rs, 1))"

text \<open>
  Lines 897 and 898: the module calls \<^verbatim>\<open>main(sys.argv)\<close> as a statement. The value
  returned is dropped, so the interpreter ends with status 0 when \<^verbatim>\<open>main\<close> returns, and
  with status 1 when an exception leaves it.
\<close>

definition exit_status :: "py_error + run_state \<times> int \<Rightarrow> int" where
  "exit_status r = (case r of Inl err \<Rightarrow> 1 | Inr (rs, exit_code) \<Rightarrow> 0)"

section \<open>The summary's elapsed time\<close>

text \<open>
  Line 508: \<^verbatim>\<open>total_time_in_hms_get\<close>. \<^verbatim>\<open>round(x)\<close> is the integer nearest to the float
  \<open>x\<close>, ties to even; \<^verbatim>\<open>round(x, 2)\<close> is the float nearest to \<open>x\<close> rounded to two
  decimals, here kept as its number of hundredths, and \<^verbatim>\<open>str\<close> prints the shortest
  decimal that reads back as that float.
\<close>

datatype seconds_value = Whole int | Hundredths int

definition digit_char :: "int \<Rightarrow> char" where
  "digit_char d = char_of (48 + d)"

function str_digits :: "int \<Rightarrow> string" where
  "str_digits n =
     (if n < 10 then [digit_char n] else str_digits (n div 10) @ [digit_char (n mod 10)])"
  by pat_completeness auto
termination
  by (relation "measure nat") auto

definition str_int :: "int \<Rightarrow> string" where
  "str_int i = (if i < 0 then ''-'' @ str_digits (- i) else str_digits i)"

fun str_seconds :: "seconds_value \<Rightarrow> string" where
  "str_seconds (Whole i) = str_int i"
| "str_seconds (Hundredths d) =
     (if d = 100 then ''1.0''
      else ''0.'' @ (if d mod 10 = 0 then [digit_char (d div 10)]
                     else [digit_char (d div 10), digit_char (d mod 10)]))"

definition total_time_in_hms_get :: "int \<Rightarrow> string" where
  "total_time_in_hms_get total_time_ns =
     (let seconds_raw = true_divide total_time_ns 1000000000;
          seconds0 = round_half_even seconds_raw;
          (minutes0, seconds1) =
            (if 60 \<le> seconds0
             then (round_half_even (true_divide seconds0 60), seconds0 mod 60)
             else (0, seconds0));
          (hours, minutes) =
            (if 60 \<le> minutes0
             then (round_half_even (true_divide minutes0 60), minutes0 mod 60)
             else (0, minutes0));
          seconds =
            (if \<not> (hours \<noteq> 0 \<and> minutes \<noteq> 0) \<and> (seconds_raw < 1 \<and> 0 < seconds_raw)
             then Hundredths (round_half_even (seconds_raw * 100))
             else if \<not> (hours \<noteq> 0 \<and> minutes \<noteq> 0) \<and> (seconds_raw < 60 \<and> 1 < seconds_raw)
             then Whole (round_half_even seconds_raw)
             else Whole seconds1)
      in (if hours \<noteq> 0 then str_int hours @ '' hour(s) '' else [])
         @ (if minutes \<noteq> 0 then str_int minutes @ '' minutes '' else [])
         @ str_seconds seconds @ '' seconds'')"

section \<open>A sample run\<close>

text \<open>
  A Linux machine with the \<^verbatim>\<open>flac\<close> encoder, an album with one subdirectory, and an
  encoder that writes its output file and exits with status 0 except on
  \<^verbatim>\<open>bad.wav\<close>.
\<close>

definition example_env :: env where
  "example_env =
     \<lparr>platform_system = ''Linux'', shutil_fault = (\<lambda>p. False), mkdir_fault = (\<lambda>p. False)\<rparr>"

definition example_world :: world where
  "example_world =
     \<lparr>files = [(''/music/Album/track.wav'', ''RIFF''),
               (''/music/Album/old.flac'', ''fLaC''),
               (''/music/Album/done.wav'', ''RIFF''),
               (''/music/Album/done.flac'', ''fLaC''),
               (''/music/Album/bad.wav'', ''RIFX''),
               (''/music/Album/cover.JPG'', ''img''),
               (''/music/Album/notes.doc'', ''doc''),
               (''/music/Album/a/b/deep.flac'', ''fLaC''),
               (''/usr/bin/flac'', ''ELF'')],
      dirs = [''/music'', ''/music/Album'', ''/music/Album/a'', ''/music/Album/a/b'', ''/out'',
              ''/out/Album'', ''/usr'', ''/usr/bin'']\<rparr>"

definition example_tool :: tool where
  "example_tool argv w =
     (if argv ! 1 = ''/music/Album/bad.wav'' then Exited 1 7 w
      else Exited 0 1000 (write_file w (last argv) ''fLaC''))"

text \<open>An encoder file that is there and cannot be started, and the sample album with
  \<^verbatim>\<open>old.flac\<close> already at the destination.\<close>

definition unstartable_tool :: tool where
  "unstartable_tool argv w = ToolRaised OSError"


definition example_clock :: "string \<Rightarrow> nat" where
  "example_clock p = 5"

text \<open>The same machine with a destination that refuses every move and copy.\<close>

definition example_env_denied :: env where
  "example_env_denied = example_env\<lparr>shutil_fault := (\<lambda>p. True)\<rparr>"

text \<open>The same machine calling itself \<^verbatim>\<open>Darwin\<close>, and a command line that encodes the
  sample album to \<^verbatim>\<open>flac\<close> and relocates it under \<^verbatim>\<open>/out\<close>.\<close>

definition example_env_darwin :: env where
  "example_env_darwin = example_env\<lparr>platform_system := ''Darwin''\<rparr>"

definition example_cmd_line :: cmd_line where
  "example_cmd_line =
     \<lparr>source = ''/music/Album'', target = Some ''/out'', encode_to = Some ''flac'',
      decode_from = None, move_format = None, percentage = False\<rparr>"

text \<open>A one-file album, relocated without transcoding.\<close>

definition small_world :: world where
  "small_world =
     \<lparr>files = [(''/music/Album/track.flac'', ''fLaC'')],
      dirs = [''/music'', ''/music/Album'', ''/out'']\<rparr>"

definition move_cmd_line :: cmd_line where
  "move_cmd_line =
     \<lparr>source = ''/music/Album'', target = Some ''/out'', encode_to = None,
      decode_from = None, move_format = Some ''flac'', percentage = False\<rparr>"

section \<open>Facts about the file system\<close>

lemma map_of_resolve_filter:
  "map_of (map (\<lambda>(k, v). (resolve k, v)) (filter (\<lambda>(k, v). resolve k \<noteq> r) xs)) r' =
     (if r' = r then None else map_of (map (\<lambda>(k, v). (resolve k, v)) xs) r')"
  by (induction xs) auto

lemma read_file_remove_file:
  "read_file (remove_file w p) q = (if resolve q = resolve p then None else read_file w q)"
  by (simp add: read_file_def remove_file_def map_of_resolve_filter)

lemma read_file_write_file:
  "read_file (write_file w p b) q = (if resolve q = resolve p then Some b else read_file w q)"
  by (simp add: read_file_def write_file_def map_of_resolve_filter map_add_def split: option.splits)

lemma shutil_copy2_effect:
  "shutil_copy2 e w f d = Inr w' \<Longrightarrow>
     read_file w' f = read_file w f \<and> read_file w' (real_destination w f d) = read_file w f"
  by (auto simp: shutil_copy2_def Let_def read_file_write_file split: option.splits if_splits)

lemma shutil_move_effect:
  "shutil_move e w f d = Inr w' \<Longrightarrow>
     read_file w' (real_destination w f d) = read_file w f
     \<and> (resolve (real_destination w f d) \<noteq> resolve f \<longrightarrow> read_file w' f = None)"
  by (auto simp: shutil_move_def Let_def read_file_write_file read_file_remove_file
      split: option.splits if_splits)

section \<open>Relocation: move, copy or ignore\<close>

text \<open>The body of \<open>move_or_copy_file\<close> with the two membership tests named.\<close>

lemma move_or_copy_file_unfold:
  "move_or_copy_file e (w, st) f d t =
     (case getsize w f of
        Inl err \<Rightarrow> ((w, st), Raised err)
      | Inr size_file \<Rightarrow>
          if snd (split_root_extension (platform_system e) f) \<in> set format_keys then
            (case shutil_move e w f d of
               Inl error_move \<Rightarrow> ((w, st), Raised AttributeError)
             | Inr w' \<Rightarrow>
                 ((w', st\<lparr>total_count_moved := total_count_moved st + 1,
                           total_count := total_count st + 1,
                           total_size := total_size st + size_file\<rparr>), Moved))
          else if snd (split_root_extension (platform_system e) f) \<in> set companion_extensions then
            (case shutil_copy2 e w f d of
               Inl error_copy \<Rightarrow> ((w, st), Raised AttributeError)
             | Inr w' \<Rightarrow>
                 ((w', st\<lparr>total_size := total_size st + size_file,
                           total_count := total_count st + 1\<rparr>), Copied))
          else ((w, st), Ignored))"
  by (cases "split_root_extension (platform_system e) f"; cases "getsize w f")
     (simp_all add: move_or_copy_file_def dict_transcode_tool_platform_get_def Let_def
      main_and_relevant_files_for_audio_get_def format_keys_def companion_extensions_def)

text \<open>
  Claim C1, as the code has it. For a file that exists, \<open>move_or_copy_file\<close> moves it
  exactly when its lower-cased extension is a key of the registry (\<^verbatim>\<open>opus\<close> or
  \<^verbatim>\<open>flac\<close>) and \<^verbatim>\<open>shutil.move\<close> succeeds: the destination then holds the bytes and the
  source path is gone. It copies it exactly when the extension is no key, is one of
  \<^verbatim>\<open>mpc\<close>, \<^verbatim>\<open>jpg\<close>, \<^verbatim>\<open>jpeg\<close>, \<^verbatim>\<open>png\<close>, \<^verbatim>\<open>pls\<close>, \<^verbatim>\<open>rtf\<close>, \<^verbatim>\<open>txt\<close>, \<^verbatim>\<open>accurip\<close>, and
  \<^verbatim>\<open>shutil.copy2\<close> succeeds: the source then still holds its bytes, and so does the
  destination. A file of any other extension is ignored, the file system and the counters
  unchanged. The target format passed in has no influence on any of this.
\<close>

theorem move_or_copy_file_classification:
  assumes "getsize w f = Inr n"
    and "r = move_or_copy_file e (w, st) f d t"
    and "ext = snd (split_root_extension (platform_system e) f)"
  shows "((snd r = Moved) = (ext \<in> set format_keys \<and> \<not> isl (shutil_move e w f d)))
       \<and> (snd r = Moved \<longrightarrow>
            read_file (fst (fst r)) (real_destination w f d) = read_file w f
            \<and> (resolve (real_destination w f d) \<noteq> resolve f \<longrightarrow> read_file (fst (fst r)) f = None))
       \<and> ((snd r = Copied) =
            (ext \<notin> set format_keys \<and> ext \<in> set companion_extensions
              \<and> \<not> isl (shutil_copy2 e w f d)))
       \<and> (snd r = Copied \<longrightarrow>
            read_file (fst (fst r)) f = read_file w f
            \<and> read_file (fst (fst r)) (real_destination w f d) = read_file w f)
       \<and> ((snd r = Ignored) = (ext \<notin> set format_keys \<and> ext \<notin> set companion_extensions))
       \<and> (snd r = Ignored \<longrightarrow> fst r = (w, st))
       \<and> move_or_copy_file e (w, st) f d t' = r"
  using assms
  by (auto simp: move_or_copy_file_unfold shutil_copy2_effect shutil_move_effect split: sum.splits)

text \<open>Claim C1, witness: the cover image of the sample album is copied and stays where it
  was.\<close>

theorem move_or_copy_file_classification_witness:
  "getsize example_world ''/music/Album/cover.JPG'' = Inr 3
   \<and> snd (move_or_copy_file example_env (example_world, reloc_stats_init)
            ''/music/Album/cover.JPG'' ''/out/Album'' ''flac'') = Copied
   \<and> read_file (fst (fst (move_or_copy_file example_env (example_world, reloc_stats_init)
            ''/music/Album/cover.JPG'' ''/out/Album'' ''flac''))) ''/music/Album/cover.JPG''
       = Some ''img''"
proof -
  have size: "getsize example_world ''/music/Album/cover.JPG'' = Inr 3"
    by code_simp
  have ext: "snd (split_root_extension (platform_system example_env) ''/music/Album/cover.JPG'') = ''jpg''"
    by code_simp
  have copy: "\<not> isl (shutil_copy2 example_env example_world ''/music/Album/cover.JPG'' ''/out/Album'')"
    by code_simp
  have src: "read_file example_world ''/music/Album/cover.JPG'' = Some ''img''"
    by code_simp
  from move_or_copy_file_classification [where w = example_world and e = example_env
      and f = "''/music/Album/cover.JPG''" and st = reloc_stats_init and d = "''/out/Album''"
      and t = "''flac''" and t' = "''flac''", OF size refl ext [symmetric]] copy src size
  show ?thesis
    by (simp add: format_keys_def companion_extensions_def)
qed

text \<open>
  Claim C1 as stated, refuted: with \<^verbatim>\<open>flac\<close> as the target of an encode run, \<^verbatim>\<open>wav\<close>
  is a valid source extension of the format and \<^verbatim>\<open>track.wav\<close> is ignored, not moved;
  \<^verbatim>\<open>flac\<close> is no valid source extension of the format and \<^verbatim>\<open>old.flac\<close> is moved.
\<close>

theorem move_iff_valid_source_counterexample:
  "valid_source_extension ''Linux'' ''encode'' ''flac''
      (snd (split_root_extension ''Linux'' ''/music/Album/track.wav''))
   \<and> snd (move_or_copy_file example_env (example_world, reloc_stats_init)
            ''/music/Album/track.wav'' ''/out/Album'' ''flac'') = Ignored
   \<and> \<not> valid_source_extension ''Linux'' ''encode'' ''flac''
      (snd (split_root_extension ''Linux'' ''/music/Album/old.flac''))
   \<and> snd (move_or_copy_file example_env (example_world, reloc_stats_init)
            ''/music/Album/old.flac'' ''/out/Album'' ''flac'') = Moved"
  by code_simp

section \<open>Relocation: the counters\<close>

text \<open>
  Claim C9. When the \<^verbatim>\<open>shutil\<close> call that the extension of an existing file selects
  raises, \<open>move_or_copy_file\<close> leaves \<open>total_count\<close>, \<open>total_count_moved\<close> and
  \<open>total_size\<close> as they were.
\<close>

theorem io_error_leaves_statistics:
  assumes "getsize w f = Inr n"
    and "ext = snd (split_root_extension (platform_system e) f)"
    and "(ext \<in> set format_keys \<and> isl (shutil_move e w f d))
         \<or> (ext \<notin> set format_keys \<and> ext \<in> set companion_extensions \<and> isl (shutil_copy2 e w f d))"
    and "r = move_or_copy_file e (w, st) f d t"
  shows "total_count (snd (fst r)) = total_count st
       \<and> total_count_moved (snd (fst r)) = total_count_moved st
       \<and> total_size (snd (fst r)) = total_size st"
  using assms
  by (auto simp: move_or_copy_file_unfold split: sum.splits)

text \<open>Claim C9, witness: a refused move of \<^verbatim>\<open>old.flac\<close> with the counters at 7, 4
  and 900.\<close>

theorem io_error_leaves_statistics_witness:
  "isl (shutil_move example_env_denied example_world ''/music/Album/old.flac'' ''/out/Album'')
   \<and> snd (fst (move_or_copy_file example_env_denied
                 (example_world, \<lparr>total_count = 7, total_count_moved = 4, total_size = 900\<rparr>)
                 ''/music/Album/old.flac'' ''/out/Album'' ''flac''))
       = \<lparr>total_count = 7, total_count_moved = 4, total_size = 900\<rparr>"
proof -
  have size: "getsize example_world ''/music/Album/old.flac'' = Inr 4"
    by code_simp
  have ext: "snd (split_root_extension (platform_system example_env_denied) ''/music/Album/old.flac'') = ''flac''"
    by code_simp
  have fails: "isl (shutil_move example_env_denied example_world ''/music/Album/old.flac'' ''/out/Album'')"
    by code_simp
  have key: "''flac'' \<in> set format_keys"
    by (simp add: format_keys_def)
  from io_error_leaves_statistics [where w = example_world and e = example_env_denied
      and f = "''/music/Album/old.flac''" and d = "''/out/Album''" and t = "''flac''"
      and st = "\<lparr>total_count = 7, total_count_moved = 4, total_size = 900\<rparr>",
      OF size ext [symmetric] _ refl] fails key
  show ?thesis
    by simp
qed








section \<open>Transcoding one file\<close>

text \<open>The three dictionaries of the registry have the same keys.\<close>

lemma registry_same_keys:
  assumes "dict_transcode_tool_platform_get pl op = (tools, srcs, tgts)"
    and "map_of tgts k = Some t"
  shows "\<exists>v tool opts. map_of srcs k = Some v \<and> map_of tools k = Some (tool, opts)"
  using assms
  by (auto simp: dict_transcode_tool_platform_get_def Let_def split: if_splits)

text \<open>With a cache that agrees with the registry, and a format that is a key, the lookup
  of lines 368 to 390 succeeds and yields the registry's values.\<close>

lemma resolve_transcoder_ok:
  assumes ok: "cache_ok pl fmt op ts"
    and tp: "target_path pl op fmt path = Some out"
  shows "\<exists>ts'. resolve_transcoder pl w ts ext (lower fmt) op = Inr ts'
           \<and> fst (split_root_extension pl path) @ ''.'' @ target_prev ts' = out
           \<and> is_valid_source_prev ts' = valid_source_extension pl op fmt ext
           \<and> cache_ok pl fmt op ts'
           \<and> extension_prev ts' = Some ext
           \<and> total_count_transcode ts' = total_count_transcode ts
           \<and> total_count_source ts' = total_count_source ts
           \<and> total_time_ns_transcode ts' = total_time_ns_transcode ts"
proof -
  obtain tools srcs tgts where reg: "dict_transcode_tool_platform_get pl op = (tools, srcs, tgts)"
    by (metis prod.exhaust)
  from tp reg obtain t where t: "map_of tgts (lower fmt) = Some t"
    and out: "out = fst (split_root_extension pl path) @ ''.'' @ t"
    by (auto simp: target_path_def split: option.splits)
  from registry_same_keys [OF reg t] obtain v tool opts
    where v: "map_of srcs (lower fmt) = Some v" and tl: "map_of tools (lower fmt) = Some (tool, opts)"
    by blast
  show ?thesis
  proof (cases "Some ext = extension_prev ts")
    case True
    with ok reg t v tl out show ?thesis
      by (auto simp: resolve_transcoder_def cache_ok_def valid_source_extension_def
          split: option.splits)
  next
    case False
    with reg t v tl out show ?thesis
      by (simp add: resolve_transcoder_def cache_ok_def valid_source_extension_def)
  qed
qed

text \<open>The body of \<open>transcode_source_audio\<close> after the lookup.\<close>

lemma transcode_source_audio_unfold:
  assumes "resolve_transcoder pl w ts0 (snd (split_root_extension pl path)) (lower fmt) op = Inr ts"
  shows "transcode_source_audio pl run_tool (w, ts0, failed) path fmt op gather =
     (let path_target_audio_file = fst (split_root_extension pl path) @ ''.'' @ target_prev ts;
          res = \<lparr>t_world = w, t_state = ts, t_failed = failed,
                 t_return = Some path_target_audio_file, t_outcome = SkippedIneligible,
                 t_invoked = [], t_progress = None\<rparr>
      in if is_valid_source_prev ts then
           (if \<not> path_exists w path_target_audio_file then
              (if gather then
                 Inr (res\<lparr>t_state := ts\<lparr>total_count_source := total_count_source ts + 1\<rparr>,
                          t_return := None, t_outcome := Counted\<rparr>)
               else if does_transcode_tool_exist_prev ts then
                 (let argv = [transcode_tool_prev ts, path] @ options_prev ts
                               @ [path_target_audio_file]
                  in case run_tool argv w of
                       ToolRaised err \<Rightarrow> Inl err
                     | Exited status ns w' \<Rightarrow>
                         if status \<noteq> 0 then
                           Inr (res\<lparr>t_world := w',
                                    t_failed := AList.update path remediation_hint failed,
                                    t_outcome := Failed, t_invoked := [argv],
                                    t_progress := progress_report ts\<rparr>)
                         else
                           (let ts' = ts\<lparr>total_count_transcode := total_count_transcode ts + 1,
                                          total_time_ns_transcode :=
                                            total_time_ns_transcode ts + ns\<rparr>
                            in Inr (res\<lparr>t_world := w', t_state := ts',
                                        t_outcome := Transcoded, t_invoked := [argv],
                                        t_progress := progress_report ts'\<rparr>)))
               else Inr (res\<lparr>t_outcome := NoSuchTool, t_progress := progress_report ts\<rparr>))
            else if gather then
              Inr (res\<lparr>t_return := None, t_outcome := CountSkippedExisting\<rparr>)
            else Inr (res\<lparr>t_outcome := SkippedExisting, t_progress := progress_report ts\<rparr>))
         else Inr res)"
  using assms
  by (cases "split_root_extension pl path") (simp add: transcode_source_audio_def Let_def)

lemma cache_ok_counters:
  "cache_ok pl fmt op (ts\<lparr>total_count_source := a\<rparr>) = cache_ok pl fmt op ts"
  "cache_ok pl fmt op (ts\<lparr>total_count_transcode := b, total_time_ns_transcode := c\<rparr>) = cache_ok pl fmt op ts"
  by (simp_all add: cache_ok_def split: option.splits prod.splits)

lemma cache_ok_init: "cache_ok pl fmt op transcode_state_init"
  by (simp add: cache_ok_def transcode_state_init_def)

text \<open>
  Claim C3. For an eligible source file whose output path (the source path with the
  extension replaced by the format's output extension) exists, the call runs no external
  tool, returns with the file system and the dictionary of failures as they were, with
  the outcome "skipped" (in either mode), and counts nothing; a second call on the state
  the first one leaves gives the same result.
\<close>

theorem existing_output_is_skipped:
  assumes "cache_ok pl fmt op ts"
    and "target_path pl op fmt path = Some out"
    and "valid_source_extension pl op fmt (snd (split_root_extension pl path))"
    and "path_exists w out"
  shows "\<exists>r. transcode_source_audio pl run_tool (w, ts, failed) path fmt op gather = Inr r
           \<and> t_outcome r = (if gather then CountSkippedExisting else SkippedExisting)
           \<and> t_invoked r = [] \<and> t_world r = w \<and> t_failed r = failed
           \<and> total_count_transcode (t_state r) = total_count_transcode ts
           \<and> total_count_source (t_state r) = total_count_source ts
           \<and> cache_ok pl fmt op (t_state r)
           \<and> transcode_source_audio pl run_tool (t_world r, t_state r, t_failed r) path fmt op gather
               = Inr r"
proof -
  from resolve_transcoder_ok [OF assms(1,2), of w "snd (split_root_extension pl path)"]
  obtain ts' where r1: "resolve_transcoder pl w ts (snd (split_root_extension pl path)) (lower fmt) op = Inr ts'"
    and out: "fst (split_root_extension pl path) @ ''.'' @ target_prev ts' = out"
    and valid: "is_valid_source_prev ts'"
    and ok': "cache_ok pl fmt op ts'"
    and prev: "extension_prev ts' = Some (snd (split_root_extension pl path))"
    and cnt: "total_count_transcode ts' = total_count_transcode ts"
         "total_count_source ts' = total_count_source ts"
    using assms(3) by auto
  from prev have r2: "resolve_transcoder pl w ts' (snd (split_root_extension pl path)) (lower fmt) op = Inr ts'"
    by (simp add: resolve_transcoder_def)
  show ?thesis
    using transcode_source_audio_unfold [OF r1, of run_tool failed gather]
      transcode_source_audio_unfold [OF r2, of run_tool failed gather]
      out valid ok' cnt assms(4)
    by (auto simp: Let_def)
qed

text \<open>Claim C3, witness: \<^verbatim>\<open>done.wav\<close> of the sample album, next to its \<^verbatim>\<open>done.flac\<close>.\<close>

theorem existing_output_is_skipped_witness:
  "target_path ''Linux'' ''encode'' ''flac'' ''/music/Album/done.wav'' = Some ''/music/Album/done.flac''
   \<and> valid_source_extension ''Linux'' ''encode'' ''flac''
         (snd (split_root_extension ''Linux'' ''/music/Album/done.wav''))
   \<and> path_exists example_world ''/music/Album/done.flac''
   \<and> (\<exists>r. transcode_source_audio ''Linux'' example_tool (example_world, transcode_state_init, [])
               ''/music/Album/done.wav'' ''flac'' ''encode'' False = Inr r
            \<and> t_outcome r = SkippedExisting \<and> t_invoked r = [] \<and> t_world r = example_world)"
proof -
  have tp: "target_path ''Linux'' ''encode'' ''flac'' ''/music/Album/done.wav'' = Some ''/music/Album/done.flac''"
    by code_simp
  have valid: "valid_source_extension ''Linux'' ''encode'' ''flac''
         (snd (split_root_extension ''Linux'' ''/music/Album/done.wav''))"
    by code_simp
  have ex: "path_exists example_world ''/music/Album/done.flac''"
    by code_simp
  from existing_output_is_skipped [OF cache_ok_init tp valid ex, of example_tool "[]" False]
    tp valid ex
  show ?thesis by auto
qed

text \<open>
  Claim C10, as the code has it. For a format that is a key of the registry: whenever
  the call returns, it returns the output path outside the counting pass, whatever the
  file, the file system and the exit status of the tool, and \<^verbatim>\<open>None\<close> for every
  eligible file inside the counting pass. It raises instead only outside the counting
  pass, for an eligible file without output, when \<^verbatim>\<open>subprocess.run\<close> raises; in the
  counting pass, and with a tool that always runs to an exit status, it returns.
\<close>

theorem transcode_returns_target_path:
  assumes "cache_ok pl fmt op ts"
    and "target_path pl op fmt path = Some out"
    and "res = transcode_source_audio pl run_tool (w, ts, failed) path fmt op gather"
  shows "(\<forall>r. res = Inr r \<longrightarrow>
            (\<not> gather \<longrightarrow> t_return r = Some out)
            \<and> (gather \<and> valid_source_extension pl op fmt (snd (split_root_extension pl path))
                 \<longrightarrow> t_return r = None)
            \<and> cache_ok pl fmt op (t_state r))
       \<and> (\<forall>err. res = Inl err \<longrightarrow>
            \<not> gather \<and> valid_source_extension pl op fmt (snd (split_root_extension pl path))
            \<and> \<not> path_exists w out \<and> (\<exists>argv. run_tool argv w = ToolRaised err))
       \<and> (gather \<or> (\<forall>argv err. run_tool argv w \<noteq> ToolRaised err) \<longrightarrow> \<not> isl res)"
proof -
  from resolve_transcoder_ok [OF assms(1,2), of w "snd (split_root_extension pl path)"]
  obtain ts' where r1: "resolve_transcoder pl w ts (snd (split_root_extension pl path)) (lower fmt) op = Inr ts'"
    and out: "fst (split_root_extension pl path) @ ''.'' @ target_prev ts' = out"
    and valid: "is_valid_source_prev ts' = valid_source_extension pl op fmt (snd (split_root_extension pl path))"
    and ok': "cache_ok pl fmt op ts'"
    by auto
  show ?thesis
    unfolding assms(3)
    using transcode_source_audio_unfold [OF r1, of run_tool failed gather] out valid ok'
    by (auto simp: Let_def cache_ok_counters split: tool_reply.splits if_splits)
qed

text \<open>Claim C10, witness: with the sample encoder, which always runs to an exit status, the
  ineligible \<^verbatim>\<open>notes.doc\<close> outside the counting pass and the eligible \<^verbatim>\<open>track.wav\<close>
  inside it.\<close>

theorem transcode_returns_target_path_witness:
  "target_path ''Linux'' ''encode'' ''flac'' ''/music/Album/notes.doc'' = Some ''/music/Album/notes.flac''
   \<and> (\<forall>argv err. example_tool argv example_world \<noteq> ToolRaised err)
   \<and> (\<exists>r. transcode_source_audio ''Linux'' example_tool (example_world, transcode_state_init, [])
               ''/music/Album/notes.doc'' ''flac'' ''encode'' False = Inr r
            \<and> t_return r = Some ''/music/Album/notes.flac'')
   \<and> valid_source_extension ''Linux'' ''encode'' ''flac''
         (snd (split_root_extension ''Linux'' ''/music/Album/track.wav''))
   \<and> (\<exists>r. transcode_source_audio ''Linux'' example_tool (example_world, transcode_state_init, [])
               ''/music/Album/track.wav'' ''flac'' ''encode'' True = Inr r
            \<and> t_return r = None)"
proof -
  have tp: "target_path ''Linux'' ''encode'' ''flac'' ''/music/Album/notes.doc'' = Some ''/music/Album/notes.flac''"
    by code_simp
  have tp2: "target_path ''Linux'' ''encode'' ''flac'' ''/music/Album/track.wav'' = Some ''/music/Album/track.flac''"
    by code_simp
  have valid: "valid_source_extension ''Linux'' ''encode'' ''flac''
         (snd (split_root_extension ''Linux'' ''/music/Album/track.wav''))"
    by code_simp
  have runs: "\<forall>argv err. example_tool argv example_world \<noteq> ToolRaised err"
    by (simp add: example_tool_def)
  note doc = transcode_returns_target_path [where run_tool = example_tool and w = example_world
      and failed = "[]" and gather = False, OF cache_ok_init tp refl]
  note wav = transcode_returns_target_path [where run_tool = example_tool and w = example_world
      and failed = "[]" and gather = True, OF cache_ok_init tp2 refl]
  from doc runs obtain r1 where r1: "transcode_source_audio ''Linux'' example_tool
      (example_world, transcode_state_init, []) ''/music/Album/notes.doc'' ''flac'' ''encode'' False
      = Inr r1"
    by (cases "transcode_source_audio ''Linux'' example_tool
      (example_world, transcode_state_init, []) ''/music/Album/notes.doc'' ''flac'' ''encode'' False")
      auto
  from wav obtain r2 where r2: "transcode_source_audio ''Linux'' example_tool
      (example_world, transcode_state_init, []) ''/music/Album/track.wav'' ''flac'' ''encode'' True
      = Inr r2"
    by (cases "transcode_source_audio ''Linux'' example_tool
      (example_world, transcode_state_init, []) ''/music/Album/track.wav'' ''flac'' ''encode'' True")
      auto
  from doc r1 have "t_return r1 = Some ''/music/Album/notes.flac''" by simp
  moreover from wav r2 valid have "t_return r2 = None" by simp
  ultimately show ?thesis
    using tp valid runs r1 r2 by simp
qed

text \<open>
  Claim C10 as stated, refuted: outside the counting pass, for the eligible
  \<^verbatim>\<open>track.wav\<close> and an encoder file that is there and cannot be started, the call raises
  \<^verbatim>\<open>OSError\<close> and returns no path.
\<close>

theorem unstartable_tool_counterexample:
  "target_path ''Linux'' ''encode'' ''flac'' ''/music/Album/track.wav''
     = Some ''/music/Album/track.flac''
   \<and> isfile example_world ''/usr/bin/flac''
   \<and> transcode_source_audio ''Linux'' unstartable_tool (example_world, transcode_state_init, [])
        ''/music/Album/track.wav'' ''flac'' ''encode'' False = Inl OSError"
  by code_simp

text \<open>The other outcomes occur in the sample: an ineligible file, a missing tool
  (\<^verbatim>\<open>opusenc\<close> is not installed), a failed invocation and a successful one.\<close>

lemma sample_outcomes:
  "map_sum id t_outcome (transcode_source_audio ''Linux'' example_tool
      (example_world, transcode_state_init, []) ''/music/Album/notes.doc'' ''flac'' ''encode'' False)
     = Inr SkippedIneligible"
  "map_sum id t_outcome (transcode_source_audio ''Linux'' example_tool
      (example_world, transcode_state_init, []) ''/music/Album/track.wav'' ''opus'' ''encode'' False)
     = Inr NoSuchTool"
  "map_sum id t_outcome (transcode_source_audio ''Linux'' example_tool
      (example_world, transcode_state_init, []) ''/music/Album/bad.wav'' ''flac'' ''encode'' False)
     = Inr Failed"
  "map_sum id t_outcome (transcode_source_audio ''Linux'' example_tool
      (example_world, transcode_state_init, []) ''/music/Album/track.wav'' ''flac'' ''encode'' False)
     = Inr Transcoded"
  by code_simp+

text \<open>Every call that returns keeps the cache in agreement with the registry; with a tool
  that always runs to an exit status every call returns, and so does the loop over the
  files of a tree.\<close>

lemma transcode_source_audio_keeps_cache:
  assumes "cache_ok pl fmt op ts"
    and "target_path pl op fmt path = Some out"
    and "transcode_source_audio pl run_tool (w, ts, failed) path fmt op gather = Inr r"
  shows "cache_ok pl fmt op (t_state r)"
proof -
  from resolve_transcoder_ok [OF assms(1,2), of w "snd (split_root_extension pl path)"]
  obtain ts' where r1: "resolve_transcoder pl w ts (snd (split_root_extension pl path)) (lower fmt) op = Inr ts'"
    and ok': "cache_ok pl fmt op ts'"
    by auto
  show ?thesis
    using transcode_source_audio_unfold [OF r1, of run_tool failed gather] ok' assms(3)
    by (auto simp: Let_def cache_ok_counters split: tool_reply.splits if_splits)
qed

lemma transcode_source_audio_returns:
  assumes "cache_ok pl fmt op ts"
    and "target_path pl op fmt path = Some out"
    and "\<forall>argv err. run_tool argv w \<noteq> ToolRaised err"
  shows "\<exists>r. transcode_source_audio pl run_tool (w, ts, failed) path fmt op gather = Inr r"
proof -
  from resolve_transcoder_ok [OF assms(1,2), of w "snd (split_root_extension pl path)"]
  obtain ts' where r1: "resolve_transcoder pl w ts (snd (split_root_extension pl path)) (lower fmt) op = Inr ts'"
    by auto
  show ?thesis
    using transcode_source_audio_unfold [OF r1, of run_tool failed gather] assms(3)
    by (auto simp: Let_def split: tool_reply.splits if_splits)
qed

lemma target_path_of_key:
  "lower fmt \<in> set format_keys \<Longrightarrow> \<exists>out. target_path pl op fmt p = Some out"
  by (auto simp: target_path_def format_keys_def dict_transcode_tool_platform_get_def Let_def)

lemma transcode_loop_keeps_cache:
  assumes "lower fmt \<in> set format_keys" "cache_ok pl fmt op ts"
    and runs: "\<forall>argv w err. run_tool argv w \<noteq> ToolRaised err"
  shows "\<exists>w' ts' failed' rs.
           transcode_loop pl run_tool (w, ts, failed) fs fmt op gather = Inr ((w', ts', failed'), rs)
           \<and> cache_ok pl fmt op ts' \<and> length rs = length fs"
  using assms(2)
proof (induction fs arbitrary: w ts failed)
  case Nil
  then show ?case by simp
next
  case (Cons df fs)
  obtain d f where df: "df = (d, f)" by (cases df)
  from target_path_of_key [OF assms(1)] obtain out
    where tp: "target_path pl op fmt (posix_join2 d f) = Some out" by blast
  from runs have "\<forall>argv err. run_tool argv w \<noteq> ToolRaised err" by blast
  from transcode_source_audio_returns [where run_tool = run_tool and w = w and failed = failed
      and gather = gather, OF Cons.prems tp this]
  obtain r where r: "transcode_source_audio pl run_tool (w, ts, failed) (posix_join2 d f) fmt op gather = Inr r"
    by blast
  from transcode_source_audio_keeps_cache [OF Cons.prems tp r]
  have ok: "cache_ok pl fmt op (t_state r)" .
  from Cons.IH [OF ok, of "t_world r" "t_failed r"] obtain w' ts' failed' rs
    where l: "transcode_loop pl run_tool (t_world r, t_state r, t_failed r) fs fmt op gather
                = Inr ((w', ts', failed'), rs)"
      and ok': "cache_ok pl fmt op ts'" and len: "length rs = length fs" by blast
  from df r l ok' len show ?case by simp
qed

section \<open>The planned destination\<close>

lemma rfind_filter_max:
  "filter P (rev [0..<n]) = i # rest \<Longrightarrow> P i \<and> i < n \<and> (\<forall>j. i < j \<and> j < n \<longrightarrow> \<not> P j)"
proof (induction n arbitrary: i rest)
  case 0
  then show ?case by simp
next
  case (Suc n)
  show ?case
  proof (cases "P n")
    case True
    with Suc.prems show ?thesis by auto
  next
    case False
    with Suc.prems have "filter P (rev [0..<n]) = i # rest" by simp
    from Suc.IH [OF this] False show ?thesis
      by (auto simp: less_Suc_eq)
  qed
qed

lemma rfind_filter_none:
  "filter P (rev [0..<n]) = [] \<Longrightarrow> \<forall>j < n. \<not> P j"
  by (auto simp: filter_empty_conv)

lemma basename_no_slash: "CHR ''/'' \<notin> set (basename p)"
proof (cases "filter (\<lambda>i. p ! i \<in> set ''/'') (rev [0..<length p])")
  case Nil
  from rfind_filter_none [OF Nil] have "\<forall>j < length p. p ! j \<noteq> CHR ''/''" by simp
  moreover from Nil have "basename p = p" by (simp add: basename_def rfind_def)
  ultimately show ?thesis by (auto simp: in_set_conv_nth)
next
  case (Cons i rest)
  from rfind_filter_max [OF Cons] have m: "\<forall>j. i < j \<and> j < length p \<longrightarrow> p ! j \<noteq> CHR ''/''"
    by simp
  from Cons have b: "basename p = drop (Suc i) p"
    by (simp add: basename_def rfind_def nat_add_distrib)
  show ?thesis
  proof
    assume "CHR ''/'' \<in> set (basename p)"
    with b obtain k where "k < length p - Suc i" "drop (Suc i) p ! k = CHR ''/''"
      by (auto simp: in_set_conv_nth)
    with m show False by (auto simp: add.commute)
  qed
qed

lemma basename_nonempty:
  assumes "p \<noteq> []" "last p \<noteq> CHR ''/''"
  shows "basename p \<noteq> []"
proof (cases "filter (\<lambda>i. p ! i \<in> set ''/'') (rev [0..<length p])")
  case Nil
  then have "basename p = p" by (simp add: basename_def rfind_def)
  with assms show ?thesis by simp
next
  case (Cons i rest)
  from rfind_filter_max [OF Cons] have i: "p ! i = CHR ''/''" "i < length p" by simp_all
  from Cons have b: "basename p = drop (Suc i) p"
    by (simp add: basename_def rfind_def nat_add_distrib)
  from assms i have "i \<noteq> length p - 1"
    by (auto simp: last_conv_nth)
  with i b show ?thesis by auto
qed

lemma partition_after_prefix:
  "sep \<noteq> [] \<Longrightarrow> partition_after sep (sep @ rest) = rest"
  by (cases sep) (simp_all add: startswith_def)

lemma partition_after_short:
  "length s < length sep \<Longrightarrow> partition_after sep s = []"
proof (induction s)
  case Nil
  then show ?case by simp
next
  case (Cons c cs)
  then have "\<not> startswith (c # cs) sep"
    using length_take [of "length sep" "c # cs"] by (auto simp: startswith_def simp del: length_take)
  with Cons show ?case by simp
qed


lemma not_startswith_slash:
  "c \<noteq> [] \<Longrightarrow> CHR ''/'' \<notin> set c \<Longrightarrow> \<not> startswith c ''/''"
  by (cases c) (auto simp: startswith_def)

lemma last_not_slash: "c \<noteq> [] \<Longrightarrow> CHR ''/'' \<notin> set c \<Longrightarrow> last c \<noteq> CHR ''/''"
  using last_in_set [of c] by metis

lemma os_path_join_components:
  assumes "a \<noteq> []" "last a \<noteq> CHR ''/''" "\<forall>c \<in> set cs. c \<noteq> [] \<and> CHR ''/'' \<notin> set c"
  shows "os_path_join a cs = a @ concat (map (\<lambda>c. ''/'' @ c) cs)"
  using assms
proof (induction cs arbitrary: a)
  case Nil
  then show ?case by (simp add: os_path_join_def)
next
  case (Cons c cs)
  then have c: "c \<noteq> []" "CHR ''/'' \<notin> set c" by simp_all
  with Cons.prems have j: "posix_join2 a c = a @ ''/'' @ c"
    by (simp add: posix_join2_def not_startswith_slash)
  from c have "last (a @ ''/'' @ c) \<noteq> CHR ''/''"
    by (simp add: last_not_slash)
  with Cons.IH [of "a @ ''/'' @ c"] Cons.prems j show ?case
    by (simp add: os_path_join_def)
qed

lemma concat_slash_join_with:
  "cs \<noteq> [] \<Longrightarrow> concat (map (\<lambda>c. ''/'' @ c) cs) = ''/'' @ join_with ''/'' cs"
proof (induction cs)
  case Nil
  then show ?case by simp
next
  case (Cons x xs)
  then show ?case by (cases xs) auto
qed

lemma join_with_not_startswith_slash:
  assumes "cs \<noteq> []" "\<forall>c \<in> set cs. c \<noteq> [] \<and> CHR ''/'' \<notin> set c"
  shows "\<not> startswith (join_with ''/'' cs) ''/''"
proof -
  from assms obtain a x xs where cs: "cs = (a # x) # xs" and a: "a \<noteq> CHR ''/''"
    by (cases cs; cases "hd cs") auto
  show ?thesis
    by (cases xs) (simp_all add: cs a startswith_def)
qed

lemma destination_head_absolute:
  assumes "startswith dest ''/''" "root_source \<noteq> dest"
  shows "destination_head root_source dest = dest @ ''/'' @ basename root_source"
proof -
  from assms(1) have 1: "posix_join2 ''/'' (dest @ ''/'') = dest @ ''/''"
    by (cases dest) (auto simp: posix_join2_def startswith_def)
  have "\<not> startswith (basename root_source) ''/''"
    using basename_no_slash [of root_source]
    by (cases "basename root_source") (auto simp: startswith_def)
  then have 2: "posix_join2 (dest @ ''/'') (basename root_source) = dest @ ''/'' @ basename root_source"
    by (simp add: posix_join2_def)
  from assms(2) 1 2 show ?thesis
    by (simp add: destination_head_def os_path_join_def)
qed

text \<open>
  For an absolute destination, and a source root that does not end in a separator, the
  directory planned for a file below \<open>root/a/b\<close> is \<open>dest/basename(root)/a/b\<close>; for a
  file directly under the root it is the head directory, written with a closing
  separator.
\<close>

lemma planned_directory_mirrors:
  assumes dest: "startswith dest ''/''"
    and rt: "root_source \<noteq> []" "last root_source \<noteq> CHR ''/''" "root_source \<noteq> dest"
    and cs: "\<forall>c \<in> set comps. c \<noteq> [] \<and> CHR ''/'' \<notin> set c"
  shows "planned_directory root_source (os_path_join root_source comps)
           (destination_head root_source dest)
         = dest @ ''/'' @ basename root_source @ ''/'' @ join_with ''/'' comps"
proof -
  let ?head = "dest @ ''/'' @ basename root_source"
  have head: "destination_head root_source dest = ?head"
    by (rule destination_head_absolute [OF dest rt(3)])
  have base: "basename root_source \<noteq> []"
    by (rule basename_nonempty [OF rt(1,2)])
  then have last_head: "last ?head \<noteq> CHR ''/''"
    using basename_no_slash [of root_source] by (simp add: last_not_slash)
  have walk: "os_path_join root_source comps = root_source @ concat (map (\<lambda>c. ''/'' @ c) comps)"
    by (rule os_path_join_components [OF rt(1,2) cs])
  show ?thesis
  proof (cases "comps = []")
    case True
    have "partition_after (root_source @ ''/'') root_source = []"
      by (rule partition_after_short) simp
    with True head walk last_head show ?thesis
      by (simp add: planned_directory_def posix_join2_def startswith_def)
  next
    case False
    from walk concat_slash_join_with [OF False] have w: "os_path_join root_source comps
        = (root_source @ ''/'') @ join_with ''/'' comps"
      by simp
    have "partition_after (root_source @ ''/'') ((root_source @ ''/'') @ join_with ''/'' comps)
        = join_with ''/'' comps"
      by (rule partition_after_prefix) simp
    with w head last_head join_with_not_startswith_slash [OF False cs] show ?thesis
      by (simp add: planned_directory_def posix_join2_def)
  qed
qed

lemma split_on_nonempty: "split_on c p \<noteq> []"
  by (induction p) (auto split: list.splits)

lemma split_on_snoc_sep: "split_on c (p @ [c]) = split_on c p @ [[]]"
  using split_on_nonempty [of c]
  by (induction p) (auto split: list.splits)

lemma resolve_trailing_slash:
  assumes "p \<noteq> []"
  shows "resolve (p @ ''/'') = resolve p"
proof -
  from assms have "startswith (p @ ''/'') ''/'' = startswith p ''/''"
    by (cases p) (simp_all add: startswith_def)
  then show ?thesis
    by (simp add: resolve_def split_on_snoc_sep)
qed

lemma planned_directory_at_root:
  assumes "startswith dest ''/''" "root_source \<noteq> []" "last root_source \<noteq> CHR ''/''"
    "root_source \<noteq> dest"
  shows "resolve (planned_directory root_source root_source (destination_head root_source dest))
         = resolve (destination_head root_source dest)"
proof -
  from planned_directory_mirrors [OF assms, of "[]"]
  have "planned_directory root_source root_source (destination_head root_source dest)
        = (dest @ ''/'' @ basename root_source) @ ''/''"
    by (simp add: os_path_join_def)
  with destination_head_absolute [OF assms(1,4)] resolve_trailing_slash [of "dest @ ''/'' @ basename root_source"]
  show ?thesis by simp
qed

text \<open>
  Claim C4. The claim holds of absolute destinations (\<open>planned_directory_mirrors\<close>) and
  fails of relative ones: line 616 joins \<^verbatim>\<open>os.sep\<close> in front of the destination, so the
  destination \<^verbatim>\<open>out\<close> is planned under the root of the file system. For the source
  root \<^verbatim>\<open>/music/Album\<close> the head directory is \<^verbatim>\<open>/out/Album\<close>, the directory planned for
  \<^verbatim>\<open>/music/Album/a/b\<close> is \<^verbatim>\<open>/out/Album/a/b\<close>, and that is not the directory
  \<^verbatim>\<open>out/Album/a/b\<close> the claim names.
\<close>

theorem relative_destination_rerooted:
  "destination_head ''/music/Album'' ''out'' = ''/out/Album''
   \<and> planned_directory ''/music/Album'' (os_path_join ''/music/Album'' [''a'', ''b''])
         (destination_head ''/music/Album'' ''out'') = ''/out/Album/a/b''
   \<and> resolve ''/out/Album/a/b'' \<noteq> resolve (''out'' @ ''/'' @ basename ''/music/Album'' @ ''/a/b'')"
  by code_simp

text \<open>A source root written with a closing separator has an empty base name, and line 331
  then finds no relative part: every file of the tree is planned into the destination
  itself.\<close>

lemma trailing_separator_flattens:
  "destination_head ''/music/Album/'' ''/out'' = ''/out/''"
  "planned_directory ''/music/Album/'' (os_path_join ''/music/Album/'' [''a'', ''b''])
     (destination_head ''/music/Album/'' ''/out'') = ''/out/''"
  by code_simp+

section \<open>Facts about the floating-point model\<close>

text \<open>\<open>binade\<close> is the exponent it is meant to be, a rounded number stays within the
  binade of its argument, closed above, and rounding is monotone.\<close>

lemma pow2_powi: "pow2 e = 2 powi e"
  by (simp add: pow2_def power_int_def inverse_eq_divide power_one_over)

lemma pow2_pos: "0 < pow2 e"
  by (simp add: pow2_powi)

lemma pow2_mono: "a \<le> b \<Longrightarrow> pow2 a \<le> pow2 b"
  by (simp add: pow2_powi power_int_increasing)

lemma pow2_add: "pow2 (a + b) = pow2 a * pow2 b"
  by (simp add: pow2_powi power_int_add)

lemma pow2_diff: "pow2 (a - b) = pow2 a / pow2 b"
  by (simp add: pow2_powi power_int_diff)

lemma pow2_nat: "0 \<le> e \<Longrightarrow> pow2 e = 2 ^ nat e"
  by (simp add: pow2_def)

lemma round_half_even_of_int: "round_half_even (of_int n) = n"
  by (simp add: round_half_even_def)

lemma round_half_even_range: "\<lfloor>x\<rfloor> \<le> round_half_even x \<and> round_half_even x \<le> \<lfloor>x\<rfloor> + 1"
  by (simp add: round_half_even_def Let_def)

lemma round_half_even_mono:
  assumes "x \<le> y"
  shows "round_half_even x \<le> round_half_even y"
proof (cases "\<lfloor>x\<rfloor> = \<lfloor>y\<rfloor>")
  case True
  with assms show ?thesis
    by (auto simp: round_half_even_def Let_def)
next
  case False
  with assms have "\<lfloor>x\<rfloor> + 1 \<le> \<lfloor>y\<rfloor>"
    using floor_mono [OF assms] by linarith
  with round_half_even_range [of x] round_half_even_range [of y] show ?thesis
    by linarith
qed

lemma binade_bounds:
  assumes "0 < x"
  shows "pow2 (binade x) \<le> x \<and> x < pow2 (binade x + 1)"
proof -
  obtain p q where pq: "quotient_of x = (p, q)" by (cases "quotient_of x")
  then have q: "0 < q" and x: "x = of_int p / of_int q"
    by (simp_all add: quotient_of_denom_pos quotient_of_div)
  with assms have p: "0 < p"
    by (simp add: zero_less_divide_iff)
  let ?e0 = "bitlen p - bitlen q"
  from bitlen_bounds [OF p] have bp: "2 ^ nat (bitlen p - 1) \<le> p" "p < 2 ^ nat (bitlen p)" by simp_all
  from bitlen_bounds [OF q] have bq: "2 ^ nat (bitlen q - 1) \<le> q" "q < 2 ^ nat (bitlen q)" by simp_all
  from p q have b1: "1 \<le> bitlen p" "1 \<le> bitlen q" by (simp_all add: bitlen_alt_def)
  have P: "pow2 (bitlen p - 1) \<le> of_int p" "(of_int p :: rat) < pow2 (bitlen p)"
    using bp b1 by (simp_all add: pow2_nat)
  have Q: "pow2 (bitlen q - 1) \<le> of_int q" "(of_int q :: rat) < pow2 (bitlen q)"
    using bq b1 by (simp_all add: pow2_nat)
  have up: "x < pow2 (?e0 + 1)"
  proof -
    have "x < pow2 (bitlen p) / pow2 (bitlen q - 1)"
      unfolding x using P Q p q pow2_pos [of "bitlen q - 1"]
      by (intro frac_less) simp_all
    also have "\<dots> = pow2 (?e0 + 1)"
      by (simp add: pow2_diff [symmetric] algebra_simps)
    finally show ?thesis .
  qed
  have lo: "pow2 (?e0 - 1) < x"
  proof -
    have "pow2 (bitlen p - 1) / pow2 (bitlen q) < x"
      unfolding x using P Q p q pow2_pos [of "bitlen p - 1"]
      by (intro frac_less2) simp_all
    moreover have "pow2 (bitlen p - 1) / pow2 (bitlen q) = pow2 (?e0 - 1)"
      by (simp add: pow2_diff [symmetric] algebra_simps)
    ultimately show ?thesis by simp
  qed
  show ?thesis
    using up lo pq by (auto simp: binade_def Let_def)
qed


lemma pow2_52: "pow2 52 = of_int (2 ^ 52)" and pow2_53: "pow2 53 = of_int (2 ^ 53)"
  by (simp_all add: pow2_def)

lemma fl_bounds:
  assumes "0 < x"
  shows "pow2 (binade x) \<le> fl x \<and> fl x \<le> pow2 (binade x + 1)"
proof -
  let ?e = "binade x"
  let ?ulp = "pow2 (?e - 52)"
  let ?m = "x / ?ulp"
  have ulp: "0 < ?ulp" by (rule pow2_pos)
  from binade_bounds [OF assms] have b: "pow2 ?e \<le> x" "x < pow2 (?e + 1)" by simp_all
  have e1: "pow2 ?e = of_int (2 ^ 52) * ?ulp"
    using pow2_add [of 52 "?e - 52"] by (simp only: pow2_52 [symmetric]) simp
  have e2: "pow2 (?e + 1) = of_int (2 ^ 53) * ?ulp"
    using pow2_add [of 53 "?e - 52"] by (simp only: pow2_53 [symmetric]) (simp add: add.commute)
  have "of_int (2 ^ 52) \<le> ?m"
    using b(1) ulp unfolding e1 by (simp add: pos_le_divide_eq)
  then have "round_half_even (of_int (2 ^ 52)) \<le> round_half_even ?m"
    by (rule round_half_even_mono)
  then have lo: "2 ^ 52 \<le> round_half_even ?m"
    by (simp only: round_half_even_of_int)
  have "?m \<le> of_int (2 ^ 53)"
    using b(2) ulp unfolding e2 by (simp add: pos_divide_le_eq)
  then have "round_half_even ?m \<le> round_half_even (of_int (2 ^ 53))"
    by (rule round_half_even_mono)
  then have hi: "round_half_even ?m \<le> 2 ^ 53"
    by (simp only: round_half_even_of_int)
  have fl: "fl x = of_int (round_half_even ?m) * ?ulp"
    using assms by (simp add: fl_def Let_def)
  from lo have "(of_int (2 ^ 52) :: rat) \<le> of_int (round_half_even ?m)"
    by (simp only: of_int_le_iff)
  then have 1: "of_int (2 ^ 52) * ?ulp \<le> of_int (round_half_even ?m) * ?ulp"
    using ulp by (intro mult_right_mono) simp_all
  from hi have "(of_int (round_half_even ?m) :: rat) \<le> of_int (2 ^ 53)"
    by (simp only: of_int_le_iff)
  then have 2: "of_int (round_half_even ?m) * ?ulp \<le> of_int (2 ^ 53) * ?ulp"
    using ulp by (intro mult_right_mono) simp_all
  from 1 2 show ?thesis
    unfolding fl e1 e2 by simp
qed

lemma binade_mono:
  assumes "0 < x" "x \<le> y"
  shows "binade x \<le> binade y"
proof (rule ccontr)
  assume "\<not> binade x \<le> binade y"
  then have "binade y + 1 \<le> binade x" by simp
  then have "pow2 (binade y + 1) \<le> pow2 (binade x)" by (rule pow2_mono)
  with binade_bounds [OF assms(1)] binade_bounds [of y] assms show False
    by simp
qed

lemma fl_nonneg: "0 \<le> fl x"
  using fl_bounds [of x] pow2_pos [of "binade x"]
  by (cases "0 < x") (simp_all add: fl_def)

lemma fl_mono:
  assumes "x \<le> y"
  shows "fl x \<le> fl y"
proof (cases "0 < x")
  case False
  then have "fl x = 0" by (simp add: fl_def)
  with fl_nonneg [of y] show ?thesis by simp
next
  case True
  with assms have y: "0 < y" by simp
  from binade_mono [OF True assms] consider "binade x = binade y" | "binade x + 1 \<le> binade y"
    by linarith
  then show ?thesis
  proof cases
    case 1
    let ?ulp = "pow2 (binade y - 52)"
    have "round_half_even (x / ?ulp) \<le> round_half_even (y / ?ulp)"
      using assms pow2_pos [of "binade y - 52"]
      by (intro round_half_even_mono) (simp add: divide_right_mono)
    then have "of_int (round_half_even (x / ?ulp)) * ?ulp \<le> of_int (round_half_even (y / ?ulp)) * ?ulp"
      using pow2_pos [of "binade y - 52"] by (intro mult_right_mono) simp_all
    with True y 1 show ?thesis
      by (simp add: fl_def Let_def)
  next
    case 2
    then have "pow2 (binade x + 1) \<le> pow2 (binade y)" by (rule pow2_mono)
    with fl_bounds [OF True] fl_bounds [OF y] show ?thesis by simp
  qed
qed

section \<open>The progress line\<close>

text \<open>
  Claim C5. The percentage printed is the floor of a product of floats, and for 29 files
  of 100 the product \<^verbatim>\<open>(29 / 100) * 100\<close> is the float just below 29: the line reads
  28 where the floor of the percentage is 29.
\<close>

theorem percentage_below_floor:
  "percent_complete 29 100 = 28
   \<and> \<lfloor>(29 :: rat) / 100 * 100\<rfloor> = 29
   \<and> progress_report (transcode_state_init\<lparr>total_count_transcode := 29,
                                               total_count_source := 100\<rparr>)
       = Some (Percent 28)"
  by code_simp

text \<open>Nothing is printed unless both counters are positive, and equal counters print the
  line for a finished queue.\<close>

lemma progress_report_none:
  "(progress_report ts = None) = (total_count_source ts = 0 \<or> total_count_transcode ts = 0)"
  by (simp add: progress_report_def)

lemma progress_report_all:
  "total_count_transcode ts = total_count_source ts \<Longrightarrow> total_count_source ts \<noteq> 0 \<Longrightarrow>
     progress_report ts = Some AllTranscoded"
  by (simp add: progress_report_def)

text \<open>The percentage printed does not decrease as files are transcoded.\<close>

lemma percent_complete_mono:
  assumes "a \<le> a'"
  shows "percent_complete a b \<le> percent_complete a' b"
proof -
  have "(of_int (int a) :: rat) / of_int (int b) \<le> of_int (int a') / of_int (int b)"
    using assms by (simp add: divide_right_mono)
  then have "true_divide (int a) (int b) \<le> true_divide (int a') (int b)"
    unfolding true_divide_def by (rule fl_mono)
  then have "fl (true_divide (int a) (int b) * 100) \<le> fl (true_divide (int a') (int b) * 100)"
    by (intro fl_mono) simp
  then show ?thesis
    unfolding percent_complete_def by (rule floor_mono)
qed

section \<open>The platform and the exit status\<close>

text \<open>
  Claim C7 as stated, refuted: \<^verbatim>\<open>Darwin\<close> is no supported platform, and the registry
  resolves there as it does on Linux, to \<^verbatim>\<open>/usr/bin/flac\<close> for \<^verbatim>\<open>flac\<close>.
\<close>

theorem registry_unsupported_platform_counterexample:
  "\<not> is_supported_platform ''Darwin''
   \<and> dict_transcode_tool_platform_get ''Darwin'' ''encode''
       = dict_transcode_tool_platform_get ''Linux'' ''encode''
   \<and> map_of (fst (dict_transcode_tool_platform_get ''Darwin'' ''encode'')) ''flac''
       = Some (''/usr/bin/flac'', options_encode_flac)"
  by (simp add: is_supported_platform_def dict_transcode_tool_platform_get_def)

text \<open>
  Claim C7, as the code has it. The registry never fails: on every platform other than
  Windows it is the registry of Linux. The unsupported platform is rejected by
  \<open>main\<close>, which then returns 1 with the initial state, having resolved and changed
  nothing.
\<close>

theorem unsupported_platform_rejected_by_main:
  "(pl \<noteq> ''Windows'' \<longrightarrow>
      dict_transcode_tool_platform_get pl op = dict_transcode_tool_platform_get ''Linux'' op)
   \<and> (\<not> is_supported_platform (platform_system e) \<longrightarrow>
        main e run_tool relocate_ns w argv = Inr (run_state_init w, 1))"
  by (simp add: dict_transcode_tool_platform_get_def main_def Let_def)

text \<open>Claim C7, witness: the sample run on \<^verbatim>\<open>Darwin\<close>.\<close>

theorem unsupported_platform_rejected_by_main_witness:
  "''Darwin'' \<noteq> ''Windows'' \<and> \<not> is_supported_platform (platform_system example_env_darwin)
   \<and> dict_transcode_tool_platform_get ''Darwin'' ''decode''
       = dict_transcode_tool_platform_get ''Linux'' ''decode''
   \<and> main example_env_darwin example_tool example_clock example_world example_cmd_line
       = Inr (run_state_init example_world, 1)"
proof -
  have u: "\<not> is_supported_platform (platform_system example_env_darwin)"
    by (simp add: is_supported_platform_def example_env_darwin_def example_env_def)
  from unsupported_platform_rejected_by_main [of "''Darwin''" "''decode''" example_env_darwin
      example_tool example_clock example_world example_cmd_line] u
  show ?thesis by simp
qed

text \<open>
  Claim C6. On an unsupported platform, and for a source path that does not exist,
  \<open>main\<close> returns 1, and the exit status of the process is 0: line 898 drops the value.
\<close>

theorem fatal_failure_exits_zero:
  "main example_env_darwin example_tool example_clock example_world example_cmd_line
     = Inr (run_state_init example_world, 1)
   \<and> exit_status (main example_env_darwin example_tool example_clock example_world
                     example_cmd_line) = 0
   \<and> main example_env example_tool example_clock example_world
        (example_cmd_line\<lparr>source := ''/nowhere''\<rparr>)
     = Inr (run_state_init example_world, 1)
   \<and> exit_status (main example_env example_tool example_clock example_world
                     (example_cmd_line\<lparr>source := ''/nowhere''\<rparr>)) = 0"
  by code_simp

text \<open>Whatever \<open>main\<close> returns, the exit status is 0.\<close>

lemma exit_status_of_return: "exit_status (Inr (rs, exit_code)) = 0"
  by (simp add: exit_status_def)

text \<open>
  A relocation that fails does change the exit status: the handler of line 235 raises
  \<^verbatim>\<open>AttributeError\<close>, which ends the run with status 1. A single file relocated without
  transcoding ends the same way, by the unbound \<^verbatim>\<open>transcoded_file\<close> of line 695. The
  same album with nothing refused is relocated, and \<open>main\<close> returns 0.
\<close>

lemma relocation_failure_exits_one:
  "main example_env_denied example_tool example_clock small_world move_cmd_line
     = Inl AttributeError"
  "exit_status (main example_env_denied example_tool example_clock small_world move_cmd_line) = 1"
  by code_simp+

lemma single_file_move_exits_one:
  "main example_env example_tool example_clock small_world
      (move_cmd_line\<lparr>source := ''/music/Album/track.flac''\<rparr>) = Inl UnboundLocalError"
  by code_simp

lemma successful_run_exits_zero:
  "map_sum id snd (main example_env example_tool example_clock small_world move_cmd_line) = Inr 0"
  "map_sum id (\<lambda>(rs, c). read_file (rs_world rs) ''/out/Album/track.flac'')
     (main example_env example_tool example_clock small_world move_cmd_line) = Inr (Some ''fLaC'')"
  by code_simp+

section \<open>The elapsed time\<close>

text \<open>
  Claim C8. Lines 514 and 518 round the quotient by 60 where the decomposition needs its
  floor, and line 529 rounds the seconds again after the minutes were taken out: 100
  seconds are reported as 2 minutes 40 seconds, and 59.6 seconds as 1 minutes 60 seconds.
\<close>

theorem elapsed_time_rounds_minutes_up:
  "total_time_in_hms_get 100000000000 = ''2 minutes 40 seconds''
   \<and> total_time_in_hms_get 59600000000 = ''1 minutes 60 seconds''"
  by code_simp

text \<open>Below a second the seconds have two decimals, below a minute they are rounded to a
  whole number, and 80 seconds are 1 minute 20 seconds.\<close>

lemma elapsed_time_examples:
  "total_time_in_hms_get 0 = ''0 seconds''"
  "total_time_in_hms_get 500000000 = ''0.5 seconds''"
  "total_time_in_hms_get 45400000000 = ''45 seconds''"
  "total_time_in_hms_get 80000000000 = ''1 minutes 20 seconds''"
  by code_simp+

end
